theory Spec2Isabelle
  imports Complex_Main "HOL-Library.Multiset"
begin

section \<open>JavaScript values\<close>

text \<open>
  The components compute on JavaScript numbers, strings, \<open>null\<close> and \<open>undefined\<close>.
  A number is modelled as an exact real, or one of the three special values of the
  language: \<open>NaN\<close>, \<open>Infinity\<close> and \<open>-Infinity\<close>.  Arithmetic on finite values is exact
  (rounding to 64-bit floats, overflow and the sign of zero are not represented); the
  special values follow the rules of the language: \<open>0/0\<close>, \<open>Infinity - Infinity\<close> and
  \<open>0 * Infinity\<close> are \<open>NaN\<close>, every comparison with \<open>NaN\<close> is false.
\<close>

datatype jsnum = NaN | NegInf | Fin real | PosInf

fun isNaN :: "jsnum \<Rightarrow> bool" where
  "isNaN NaN = True"
| "isNaN _ = False"

fun jneg :: "jsnum \<Rightarrow> jsnum" where
  "jneg NaN = NaN"
| "jneg NegInf = PosInf"
| "jneg (Fin a) = Fin (- a)"
| "jneg PosInf = NegInf"

text \<open>\<open>a + b\<close>\<close>

fun jadd :: "jsnum \<Rightarrow> jsnum \<Rightarrow> jsnum" where
  "jadd NaN _ = NaN"
| "jadd _ NaN = NaN"
| "jadd (Fin a) (Fin b) = Fin (a + b)"
| "jadd PosInf NegInf = NaN"
| "jadd NegInf PosInf = NaN"
| "jadd PosInf _ = PosInf"
| "jadd _ PosInf = PosInf"
| "jadd NegInf _ = NegInf"
| "jadd _ NegInf = NegInf"

text \<open>\<open>a - b\<close>\<close>

definition jsub :: "jsnum \<Rightarrow> jsnum \<Rightarrow> jsnum" where
  "jsub a b = jadd a (jneg b)"

text \<open>The sign of a number that is not \<open>NaN\<close>: \<open>-1\<close>, \<open>0\<close> or \<open>1\<close>.\<close>

fun jsign :: "jsnum \<Rightarrow> real" where
  "jsign NaN = 0"
| "jsign NegInf = - 1"
| "jsign (Fin a) = sgn a"
| "jsign PosInf = 1"

text \<open>\<open>a * b\<close>\<close>

fun jmul :: "jsnum \<Rightarrow> jsnum \<Rightarrow> jsnum" where
  "jmul NaN _ = NaN"
| "jmul _ NaN = NaN"
| "jmul (Fin a) (Fin b) = Fin (a * b)"
| "jmul a b =
     (if jsign a * jsign b = 0 then NaN
      else if 0 < jsign a * jsign b then PosInf else NegInf)"

text \<open>\<open>a / b\<close>; zero is the positive zero, so \<open>a / 0\<close> has the sign of \<open>a\<close>.\<close>

fun jdiv :: "jsnum \<Rightarrow> jsnum \<Rightarrow> jsnum" where
  "jdiv NaN _ = NaN"
| "jdiv _ NaN = NaN"
| "jdiv (Fin a) (Fin b) =
     (if b = 0 then (if a = 0 then NaN else if 0 < a then PosInf else NegInf)
      else Fin (a / b))"
| "jdiv (Fin a) _ = Fin 0"
| "jdiv PosInf (Fin b) = (if 0 \<le> b then PosInf else NegInf)"
| "jdiv NegInf (Fin b) = (if 0 \<le> b then NegInf else PosInf)"
| "jdiv _ _ = NaN"

text \<open>\<open>a <= b\<close> and \<open>a < b\<close>\<close>

fun jle :: "jsnum \<Rightarrow> jsnum \<Rightarrow> bool" where
  "jle NaN _ = False"
| "jle _ NaN = False"
| "jle NegInf _ = True"
| "jle _ PosInf = True"
| "jle (Fin a) (Fin b) = (a \<le> b)"
| "jle _ _ = False"

fun jlt :: "jsnum \<Rightarrow> jsnum \<Rightarrow> bool" where
  "jlt NaN _ = False"
| "jlt _ NaN = False"
| "jlt (Fin a) (Fin b) = (a < b)"
| "jlt PosInf _ = False"
| "jlt _ NegInf = False"
| "jlt _ _ = True"

text \<open>\<open>Math.max(a, b)\<close>, \<open>Math.min(a, b)\<close> and \<open>Math.floor(a)\<close>\<close>

definition Math_max :: "jsnum \<Rightarrow> jsnum \<Rightarrow> jsnum" where
  "Math_max a b = (if isNaN a \<or> isNaN b then NaN else if jle a b then b else a)"

definition Math_min :: "jsnum \<Rightarrow> jsnum \<Rightarrow> jsnum" where
  "Math_min a b = (if isNaN a \<or> isNaN b then NaN else if jle a b then a else b)"

fun Math_floor :: "jsnum \<Rightarrow> jsnum" where
  "Math_floor (Fin a) = Fin (of_int \<lfloor>a\<rfloor>)"
| "Math_floor a = a"

text \<open>
  \<open>Math.pow(a, y)\<close> for a finite exponent \<open>y > 0\<close> that is not an integer (the only
  use is \<open>y = 0.3\<close>): a negative base gives \<open>NaN\<close>, \<open>-Infinity\<close> gives \<open>Infinity\<close>.
\<close>

fun Math_pow :: "jsnum \<Rightarrow> real \<Rightarrow> jsnum" where
  "Math_pow NaN y = NaN"
| "Math_pow NegInf y = PosInf"
| "Math_pow PosInf y = PosInf"
| "Math_pow (Fin a) y = (if a < 0 then NaN else Fin (a powr y))"

text \<open>
  A cell of a row: the data model of the tables has numbers, strings and \<open>null\<close>;
  reading a key that the row does not have gives \<open>undefined\<close>.
\<close>

datatype jsval = JUndefined | JNull | JNum jsnum | JStr string

type_synonym row = "string \<Rightarrow> jsval"

text \<open>The row with no keys, and \<open>{k: v, ...r}\<close>.\<close>

definition noRow :: row where
  "noRow = (\<lambda>k. JUndefined)"

definition withKey :: "string \<Rightarrow> jsval \<Rightarrow> row \<Rightarrow> row" where
  "withKey k v r = r(k := v)"

text \<open>Truthiness: \<open>undefined\<close>, \<open>null\<close>, \<open>0\<close>, \<open>NaN\<close> and \<open>""\<close> are falsy.\<close>

definition truthyNum :: "jsnum \<Rightarrow> bool" where
  "truthyNum n = (if isNaN n then False else n \<noteq> Fin 0)"

fun truthy :: "jsval \<Rightarrow> bool" where
  "truthy JUndefined = False"
| "truthy JNull = False"
| "truthy (JNum n) = truthyNum n"
| "truthy (JStr s) = (s \<noteq> [])"

text \<open>\<open>a || b\<close> and \<open>a ?? b\<close>\<close>

definition jor :: "jsval \<Rightarrow> jsval \<Rightarrow> jsval" where
  "jor a b = (if truthy a then a else b)"

fun nullish :: "jsval \<Rightarrow> jsval \<Rightarrow> jsval" where
  "nullish JUndefined b = b"
| "nullish JNull b = b"
| "nullish a b = a"

text \<open>
  The conversions of the language between strings and numbers are functions of the
  host, not of this program, and are parameters of the model:
  \<open>showNum\<close> is \<open>String(n)\<close> on a number, \<open>pf\<close> is \<open>parseFloat(s)\<close> on a non-empty
  string, \<open>numOf\<close> is \<open>Number(s)\<close> on a non-empty string.  What the language fixes
  for the other arguments is written out.
\<close>

fun jsString :: "(jsnum \<Rightarrow> string) \<Rightarrow> jsval \<Rightarrow> string" where
  "jsString showNum JUndefined = ''undefined''"
| "jsString showNum JNull = ''null''"
| "jsString showNum (JNum n) = showNum n"
| "jsString showNum (JStr s) = s"

fun parseFloat :: "(string \<Rightarrow> jsnum) \<Rightarrow> jsval \<Rightarrow> jsnum" where
  "parseFloat pf JUndefined = NaN"
| "parseFloat pf JNull = NaN"
| "parseFloat pf (JNum n) = n"
| "parseFloat pf (JStr s) = (if s = [] then NaN else pf s)"

fun Number :: "(string \<Rightarrow> jsnum) \<Rightarrow> jsval \<Rightarrow> jsnum" where
  "Number numOf JUndefined = NaN"
| "Number numOf JNull = Fin 0"
| "Number numOf (JNum n) = n"
| "Number numOf (JStr s) = (if s = [] then Fin 0 else numOf s)"

text \<open>
  \<open>s.toUpperCase()\<close> on the letters \<open>a\<close> to \<open>z\<close>; every other character is kept.
  Strings are sequences of 8-bit characters here; the tokens that the code compares
  against are ASCII.  (The language also maps the letters outside ASCII, two of them,
  U+0131 and U+017F, to the ASCII letters \<open>I\<close> and \<open>S\<close>; such tokens are outside
  the model.)
\<close>

definition upperChar :: "char \<Rightarrow> char" where
  "upperChar c =
     (case map_of (zip ''abcdefghijklmnopqrstuvwxyz'' ''ABCDEFGHIJKLMNOPQRSTUVWXYZ'') c of
        None \<Rightarrow> c
      | Some u \<Rightarrow> u)"

definition toUpperCase :: "string \<Rightarrow> string" where
  "toUpperCase s = map upperChar s"

section \<open>Classification results: counts per disposition\<close>

text \<open>
  An object with string keys is an association list in the order of its keys.
  \<open>d in counts\<close> is membership among the keys, \<open>counts[d]++\<close> adds one to the
  entry of \<open>d\<close>.  (The operator \<open>in\<close> also finds the properties that every
  object inherits, such as \<open>constructor\<close> and \<open>toString\<close>; each of their names has a
  lower-case letter, and the keys looked up are in upper case.)
\<close>

definition hasKey :: "string \<Rightarrow> (string \<times> nat) list \<Rightarrow> bool" where
  "hasKey d counts = (d \<in> set (map fst counts))"

definition increment :: "string \<Rightarrow> (string \<times> nat) list \<Rightarrow> (string \<times> nat) list" where
  "increment d counts = map (\<lambda>(k, c). if k = d then (k, c + 1) else (k, c)) counts"

text \<open>\<open>String(row.Predicted_Disposition || dflt).toUpperCase()\<close>\<close>

definition dispositionOf :: "(jsnum \<Rightarrow> string) \<Rightarrow> string \<Rightarrow> row \<Rightarrow> string" where
  "dispositionOf showNum dflt r =
     toUpperCase (jsString showNum (jor (r ''Predicted_Disposition'') (JStr dflt)))"

text \<open>\<open>dispositionCounts\<close> of the classification results: three fixed keys.\<close>

definition dispositionCounts :: "(jsnum \<Rightarrow> string) \<Rightarrow> row list \<Rightarrow> (string \<times> nat) list" where
  "dispositionCounts showNum rows =
     fold (\<lambda>r counts.
             let d = dispositionOf showNum '''' r
             in if hasKey d counts then increment d counts else counts)
       rows [(''CONFIRMED'', 0), (''CANDIDATE'', 0), (''FALSE POSITIVE'', 0)]"

text \<open>
  \<open>stats.dispositions\<close> of the data exploration: a key per distinct token,
  \<open>acc[disp] = (acc[disp] || 0) + 1\<close>.  The keys are listed in the order of their
  first row (the language lists a key that is the decimal text of an integer before the
  others, which changes no count).
\<close>

definition bump :: "string \<Rightarrow> (string \<times> nat) list \<Rightarrow> (string \<times> nat) list" where
  "bump d acc = (if hasKey d acc then increment d acc else acc @ [(d, 1)])"

definition dispositions :: "(jsnum \<Rightarrow> string) \<Rightarrow> row list \<Rightarrow> (string \<times> nat) list" where
  "dispositions showNum rows =
     fold (\<lambda>r acc. bump (dispositionOf showNum ''Unknown'' r) acc) rows []"

text \<open>The sum of the counts of an object.\<close>

definition total :: "(string \<times> nat) list \<Rightarrow> nat" where
  "total counts = sum_list (map snd counts)"

text \<open>
  The summary cards: \<open>(count / data.rows.length) * 100\<close> for every entry of
  \<open>dispositionCounts\<close>.  The card prints it with \<open>toFixed(1)\<close>, which prints
  \<open>NaN\<close> as the text \<open>NaN\<close>; the model stops at the number.
\<close>

definition percentage :: "nat \<Rightarrow> row list \<Rightarrow> jsnum" where
  "percentage n rows = jmul (jdiv (Fin (real n)) (Fin (real (length rows)))) (Fin 100)"

definition percentages :: "(jsnum \<Rightarrow> string) \<Rightarrow> row list \<Rightarrow> (string \<times> jsnum) list" where
  "percentages showNum rows =
     map (\<lambda>(disp, n). (disp, percentage n rows)) (dispositionCounts showNum rows)"

text \<open>
  The insights panel of the second data exploration (the one in the file
  \<open>DownloadButton.tsx\<close>) prints, for every entry of its counts,
  \<open>(count / (data?.rows?.length || 1)) * 100\<close>.
\<close>

definition insightPercentage :: "nat \<Rightarrow> row list \<Rightarrow> jsnum" where
  "insightPercentage n rows =
     jmul (jdiv (Fin (real n))
             (let len = Fin (real (length rows)) in if truthyNum len then len else Fin 1))
       (Fin 100)"

section \<open>Data exploration: the colour of a disposition\<close>

text \<open>
  \<open>color(disp)\<close> switches on \<open>(disp || "").toUpperCase()\<close>.  Its argument is a
  string; \<open>None\<close> stands for \<open>null\<close> and \<open>undefined\<close>, which the guard
  \<open>disp || ""\<close> turns into the empty string.  The legend of the scatter plot lists
  the four classes and paints each with \<open>color\<close> of its name.
\<close>

definition color :: "string option \<Rightarrow> string" where
  "color disp =
     (let d = toUpperCase (case disp of None \<Rightarrow> '''' | Some s \<Rightarrow> s)
      in if d = ''CP'' \<or> d = ''CONFIRMED'' then ''#10b981''
         else if d = ''PC'' \<or> d = ''CANDIDATE'' then ''#facc15''
         else if d = ''FP'' \<or> d = ''FALSE POSITIVE'' then ''#ef4444''
         else ''#94a3b8'')"

definition legend :: "string list" where
  "legend = [''CONFIRMED'', ''CANDIDATE'', ''FALSE POSITIVE'', ''UNKNOWN'']"

section \<open>Data exploration: column statistics\<close>

text \<open>
  \<open>vals.sort((a, b) => a - b)\<close> on values that are not \<open>NaN\<close>: the ascending order.
\<close>

fun insertAsc :: "jsnum \<Rightarrow> jsnum list \<Rightarrow> jsnum list" where
  "insertAsc a [] = [a]"
| "insertAsc a (b # bs) = (if jle a b then a # b # bs else b # insertAsc a bs)"

definition sortAsc :: "jsnum list \<Rightarrow> jsnum list" where
  "sortAsc vals = foldr insertAsc vals []"

text \<open>The fields \<open>min\<close>, \<open>max\<close>, \<open>mean\<close>, \<open>median\<close> and \<open>count\<close> of a summary.\<close>

record columnStat =
  stat_min :: jsnum
  stat_max :: jsnum
  stat_mean :: jsnum
  stat_median :: jsnum
  stat_count :: nat

text \<open>
  The parsed values of a column that are numbers, in the order of the rows
  (\<open>.map(...).filter(...)\<close>) and in ascending order (\<open>.sort(...)\<close>).
\<close>

definition numericVals :: "(string \<Rightarrow> jsnum) \<Rightarrow> row list \<Rightarrow> string \<Rightarrow> jsnum list" where
  "numericVals pf rows col = filter (\<lambda>v. \<not> isNaN v) (map (\<lambda>r. parseFloat pf (r col)) rows)"

definition columnVals :: "(string \<Rightarrow> jsnum) \<Rightarrow> row list \<Rightarrow> string \<Rightarrow> jsnum list" where
  "columnVals pf rows col = sortAsc (numericVals pf rows col)"

text \<open>
  The body of the reduction over the numeric columns: no entry (\<open>None\<close>) for a column
  with no numeric value, the statistics of the column otherwise.
\<close>

definition columnSummary :: "(string \<Rightarrow> jsnum) \<Rightarrow> row list \<Rightarrow> string \<Rightarrow> columnStat option" where
  "columnSummary pf rows col =
     (let vals = columnVals pf rows col
      in if length vals = 0 then None
         else Some \<lparr> stat_min = vals ! 0,
                     stat_max = vals ! (length vals - 1),
                     stat_mean = jdiv (foldl jadd (Fin 0) vals) (Fin (real (length vals))),
                     stat_median = vals ! (length vals div 2),
                     stat_count = length vals \<rparr>)"

definition numericCols :: "string list" where
  "numericCols = [''koi_period'', ''pl_orbper'', ''koi_prad'', ''pl_rade'', ''koi_depth'',
                  ''koi_teff'', ''st_teff'', ''pl_trandep'']"

definition columns :: "(string \<Rightarrow> jsnum) \<Rightarrow> row list \<Rightarrow> (string \<times> columnStat) list" where
  "columns pf rows =
     fold (\<lambda>col acc. case columnSummary pf rows col of
                        None \<Rightarrow> acc
                      | Some s \<Rightarrow> acc @ [(col, s)])
       numericCols []"

section \<open>Data exploration: histograms\<close>

text \<open>
  \<open>histogram[i]++\<close> on an array of counts.  The index is a number: an element of the
  array is incremented when the index is an integer within the array; any other index
  (\<open>NaN\<close>, a negative or fractional number) names a property of the array object
  that is not one of its elements, and every element keeps its count.  An integer index
  past the end cannot arise, since every index is at most \<open>bins - 1\<close>.
\<close>

fun incrAt :: "jsnum \<Rightarrow> nat list \<Rightarrow> nat list" where
  "incrAt (Fin i) h =
     (if of_int \<lfloor>i\<rfloor> = i \<and> 0 \<le> i \<and> i < real (length h)
      then h[nat \<lfloor>i\<rfloor> := h ! nat \<lfloor>i\<rfloor> + 1] else h)"
| "incrAt _ h = h"

text \<open>The loop that fills the bins, shared by the histograms.\<close>

definition fillBins :: "nat \<Rightarrow> jsnum \<Rightarrow> jsnum \<Rightarrow> jsnum list \<Rightarrow> nat list" where
  "fillBins bins mn width vals =
     fold (\<lambda>v h. incrAt (Math_min (Fin (real (bins - 1)))
                            (Math_floor (jdiv (jsub v mn) width))) h)
       vals (replicate bins 0)"

text \<open>
  \<open>HistogramChart\<close> of the data exploration, on the column \<open>period\<close>: the values
  that are numbers and positive, the number of bins by the square-root rule, and the
  width \<open>(max - min) / bins || 1\<close>.  No chart is drawn when no value is left.
\<close>

definition periods :: "(string \<Rightarrow> jsnum) \<Rightarrow> row list \<Rightarrow> jsnum list" where
  "periods pf rows =
     sortAsc (filter (\<lambda>v. \<not> isNaN v \<and> jlt (Fin 0) v)
                (map (\<lambda>r. parseFloat pf (nullish (r ''period'') (JStr ''''))) rows))"

definition binCount :: "nat \<Rightarrow> nat" where
  "binCount n = max 5 (nat (round (sqrt (real n))))"

record histogramChart =
  bins :: nat
  width :: jsnum
  histogram :: "nat list"

definition HistogramChart :: "(string \<Rightarrow> jsnum) \<Rightarrow> row list \<Rightarrow> histogramChart option" where
  "HistogramChart pf rows =
     (let ps = periods pf rows
      in if length ps = 0 then None
         else let n = binCount (length ps);
                  mn = ps ! 0;
                  mx = ps ! (length ps - 1);
                  w = jdiv (jsub mx mn) (Fin (real n));
                  wd = (if truthyNum w then w else Fin 1)
              in Some \<lparr> bins = n, width = wd, histogram = fillBins n mn wd ps \<rparr>)"

text \<open>
  \<open>histogramData\<close> of the second data exploration (the one in the file
  \<open>DownloadButton.tsx\<close>), on the column \<open>koi_period\<close>: 20 bins, the width
  \<open>(max - min) / bins\<close>.  The field \<open>count\<close> of a bin is \<open>binTally\<close> here.
\<close>

record bin =
  binStart :: jsnum
  binEnd :: jsnum
  binTally :: nat

definition validPeriods :: "(string \<Rightarrow> jsnum) \<Rightarrow> row list \<Rightarrow> jsnum list" where
  "validPeriods pf rows =
     sortAsc (filter (\<lambda>v. \<not> isNaN v \<and> jlt (Fin 0) v)
                (map (\<lambda>r. parseFloat pf (r ''koi_period'')) rows))"

definition histogramData :: "(string \<Rightarrow> jsnum) \<Rightarrow> row list \<Rightarrow> bin list" where
  "histogramData pf rows =
     (let vs = validPeriods pf rows
      in if length vs = 0 then []
         else let n = 20;
                  mn = vs ! 0;
                  mx = vs ! (length vs - 1);
                  binWidth = jdiv (jsub mx mn) (Fin (real n))
              in map (\<lambda>(tally, index).
                        \<lparr> binStart = jadd mn (jmul (Fin (real index)) binWidth),
                          binEnd = jadd mn (jmul (Fin (real (index + 1))) binWidth),
                          binTally = tally \<rparr>)
                   (zip (fillBins n mn binWidth vs) [0 ..< n]))"

section \<open>Data exploration: scatter plots\<close>

text \<open>\<open>Math.max(...vs)\<close>: \<open>-Infinity\<close> for no argument, \<open>NaN\<close> when one is.\<close>

definition Math_max_of :: "jsnum list \<Rightarrow> jsnum" where
  "Math_max_of vs = fold (\<lambda>v m. Math_max m v) vs NegInf"

record point =
  px :: jsnum
  py :: jsnum
  disp :: string
  meta :: row

text \<open>
  \<open>ScatterPlot\<close> of the data exploration: the points with a numeric \<open>x\<close> and
  \<open>y\<close>, the maxima \<open>Math.max(...xs, 1)\<close>, and the centre of each dot in the
  plot (\<open>left = 40\<close>, \<open>width = 320\<close>, \<open>bottom = 210\<close>, \<open>height = 180\<close>).
\<close>

definition scatter :: "(string \<Rightarrow> jsnum) \<Rightarrow> (jsnum \<Rightarrow> string) \<Rightarrow> row list \<Rightarrow> point list" where
  "scatter pf showNum rows =
     filter (\<lambda>p. \<not> isNaN (px p) \<and> \<not> isNaN (py p))
       (map (\<lambda>r. \<lparr> px = parseFloat pf (nullish (r ''period'') (JStr '''')),
                    py = parseFloat pf (nullish (nullish (r ''radius'') (r ''depth'')) (JStr '''')),
                    disp = toUpperCase (jsString showNum
                             (nullish (nullish (r ''Predicted_Disposition'') (r ''koi_disposition''))
                                (JStr ''UNKNOWN''))),
                    meta = r \<rparr>)
          rows)"

definition maxX :: "point list \<Rightarrow> jsnum" where
  "maxX ps = Math_max_of (map px ps @ [Fin 1])"

definition maxY :: "point list \<Rightarrow> jsnum" where
  "maxY ps = Math_max_of (map py ps @ [Fin 1])"

definition ScatterPlot :: "(string \<Rightarrow> jsnum) \<Rightarrow> (jsnum \<Rightarrow> string) \<Rightarrow> row list \<Rightarrow> (jsnum \<times> jsnum) list" where
  "ScatterPlot pf showNum rows =
     (let ps = scatter pf showNum rows
      in map (\<lambda>p. (jadd (Fin 40) (jmul (jdiv (px p) (maxX ps)) (Fin 320)),
                    jsub (Fin 210) (jmul (jdiv (py p) (maxY ps)) (Fin 180))))
           ps)"

text \<open>
  \<open>scatterData\<close> of the second data exploration: the columns are read with
  \<open>||\<close>, and the maxima are \<open>Math.max(...xs)\<close>, or \<open>0\<close> when there is no point.
  The second key of the radius is \<open>Radius (R\<close>, the character U+2295 (three bytes in
  UTF-8) and \<open>)\<close>.
\<close>

definition RadiusKey :: string where
  "RadiusKey = ''Radius (R'' @ [CHR 0xE2, CHR 0x8A, CHR 0x95] @ '')''"

record dataPoint =
  dx :: jsnum
  dy :: jsnum
  disposition :: jsval

definition scatterData :: "(string \<Rightarrow> jsnum) \<Rightarrow> row list \<Rightarrow> dataPoint list" where
  "scatterData pf rows =
     filter (\<lambda>p. \<not> isNaN (dx p) \<and> \<not> isNaN (dy p))
       (map (\<lambda>r. \<lparr> dx = parseFloat pf (jor (r ''koi_period'') (r ''Period (days)'')),
                    dy = parseFloat pf (jor (r ''koi_prad'') (r RadiusKey)),
                    disposition = jor (r ''Predicted_Disposition'') (r ''Classification'') \<rparr>)
          rows)"

definition dataMaxX :: "dataPoint list \<Rightarrow> jsnum" where
  "dataMaxX ps = (if length ps > 0 then Math_max_of (map dx ps) else Fin 0)"

definition dataMaxY :: "dataPoint list \<Rightarrow> jsnum" where
  "dataMaxY ps = (if length ps > 0 then Math_max_of (map dy ps) else Fin 0)"

definition scatterDataPlot :: "(string \<Rightarrow> jsnum) \<Rightarrow> row list \<Rightarrow> (jsnum \<times> jsnum) list" where
  "scatterDataPlot pf rows =
     (let ps = scatterData pf rows
      in map (\<lambda>p. (jadd (Fin 40) (jmul (jdiv (dx p) (dataMaxX ps)) (Fin 320)),
                    jsub (Fin 210) (jmul (jdiv (dy p) (dataMaxY ps)) (Fin 180))))
           ps)"

section \<open>The planet system: the configuration of the 3D view\<close>

text \<open>The decimal digits of a number, for the name \<open>Planet-${i + 1}\<close>.\<close>

fun decimal :: "nat \<Rightarrow> string" where
  "decimal n =
     (if n < 10 then [''0123456789'' ! n]
      else decimal (n div 10) @ [''0123456789'' ! (n mod 10)])"

record planet =
  orbitalRadius :: jsnum
  planetRadius :: jsnum
  planetColor :: string
  speed :: jsnum
  name :: jsval

text \<open>
  The callback of \<open>filtered.slice(0, 8).map((row, i) => ...)\<close>.  \<open>u\<close> is the value
  that \<open>Math.random()\<close> returns in this call, a number from 0 up to but not including
  1.
\<close>

definition radiusField :: "row \<Rightarrow> jsval" where
  "radiusField r = nullish (nullish (r ''koi_prad'') (r ''pl_rade'')) JNull"

definition periodField :: "row \<Rightarrow> jsval" where
  "periodField r = nullish (nullish (r ''koi_period'') (r ''pl_orbper'')) JNull"

definition planetRadiusOf :: "(string \<Rightarrow> jsnum) \<Rightarrow> row \<Rightarrow> jsnum" where
  "planetRadiusOf numOf r =
     (let prad = radiusField r
      in if truthy prad then Math_max (Fin 0.08) (jmul (Number numOf prad) (Fin 0.05))
         else Fin 0.12)"

definition orbitalRadiusOf :: "(string \<Rightarrow> jsnum) \<Rightarrow> nat \<Rightarrow> row \<Rightarrow> jsnum" where
  "orbitalRadiusOf numOf i r =
     (let period = periodField r
      in if truthy period then jadd (Fin 1.8) (Math_pow (Number numOf period) 0.3)
         else jadd (Fin 3) (jmul (Fin (real i)) (Fin 1.8)))"

definition planetOf :: "(string \<Rightarrow> jsnum) \<Rightarrow> string \<Rightarrow> real \<Rightarrow> nat \<Rightarrow> row \<Rightarrow> planet" where
  "planetOf numOf dispo u i r =
     \<lparr> orbitalRadius = orbitalRadiusOf numOf i r,
       planetRadius = planetRadiusOf numOf r,
       planetColor = (if dispo = ''CONFIRMED'' then ''#3b82f6'' else ''#8b5cf6''),
       speed = jadd (Fin 0.25) (jmul (Fin u) (Fin 0.7)),
       name = nullish (nullish (r ''kepoi_name'') (r ''id''))
                (JStr (''Planet-'' @ decimal (i + 1))) \<rparr>"

record systemConfig =
  planets :: "planet list"
  title :: string
  detectedCount :: nat

text \<open>
  \<open>systemConfig\<close>: the rows of the selected disposition, the first 8 of them mapped
  to planets.  \<open>rnd\<close> is the source of randomness of one invocation: \<open>rnd k\<close> is
  what the call number \<open>k\<close> of \<open>Math.random()\<close> returns; the callback runs once per
  planet, in order, so the planet at index \<open>i\<close> draws \<open>rnd i\<close>.
\<close>

definition filtered :: "(jsnum \<Rightarrow> string) \<Rightarrow> row list \<Rightarrow> string \<Rightarrow> row list" where
  "filtered showNum rows dispo = filter (\<lambda>r. dispositionOf showNum '''' r = dispo) rows"

definition systemConfigOf ::
  "(string \<Rightarrow> jsnum) \<Rightarrow> (jsnum \<Rightarrow> string) \<Rightarrow> (nat \<Rightarrow> real) \<Rightarrow> row list \<Rightarrow> string \<Rightarrow> systemConfig" where
  "systemConfigOf numOf showNum rnd rows dispo =
     (let ps = map (\<lambda>(i, r). planetOf numOf dispo (rnd i) i r)
                 (enumerate 0 (take 8 (filtered showNum rows dispo)))
      in \<lparr> planets = ps,
           title = (if dispo = ''CONFIRMED'' then ''Confirmed Planetary System''
                    else if dispo = ''CANDIDATE'' then ''Candidate Planet System''
                    else ''No Planetary System Detected''),
           detectedCount = length ps \<rparr>)"

section \<open>Instances and tables for the examples\<close>

text \<open>
  The example tables hold numbers in their numeric cells and text in their disposition
  cells.  \<open>constParse\<close> is a host whose \<open>parseFloat\<close> and \<open>Number\<close> find no
  number in any text (as in \<open>n/a\<close>); \<open>constShow\<close> fills the parameter for
  \<open>String\<close> on numbers, which no example calls.
\<close>

definition constShow :: "jsnum \<Rightarrow> string" where
  "constShow n = ''NaN''"

definition constParse :: "string \<Rightarrow> jsnum" where
  "constParse s = NaN"

text \<open>Two sources of randomness: every draw is 0, every draw is one half.\<close>

definition rndZero :: "nat \<Rightarrow> real" where
  "rndZero k = 0"

definition rndHalf :: "nat \<Rightarrow> real" where
  "rndHalf k = 1 / 2"

text \<open>\<open>{Predicted_Disposition: d}\<close>\<close>

definition labelled :: "string \<Rightarrow> row" where
  "labelled d = withKey ''Predicted_Disposition'' (JStr d) noRow"

text \<open>One row, with the token \<open>exploded\<close>.\<close>

definition tableExploded :: "row list" where
  "tableExploded = [labelled ''exploded'']"

text \<open>Four rows, two confirmed and two candidates, in mixed letter case.\<close>

definition tableFour :: "row list" where
  "tableFour = [labelled ''confirmed'', labelled ''CANDIDATE'', labelled ''Confirmed'',
                labelled ''candidate'']"

text \<open>
  Six rows with the columns \<open>koi_period\<close> and \<open>koi_prad\<close>, and no column
  \<open>koi_depth\<close>.  The periods are 3, 1, \<open>n/a\<close>, 5, 2, 4: the numbers 1 to 5 out
  of order and a cell that is not a number.  The radii are 4, 1, 3, \<open>null\<close>, 2 and a
  missing cell: four numbers.
\<close>

definition cells :: "jsval \<Rightarrow> jsval \<Rightarrow> row" where
  "cells period prad = withKey ''koi_period'' period (withKey ''koi_prad'' prad noRow)"

definition tableColumns :: "row list" where
  "tableColumns =
     [cells (JNum (Fin 3)) (JNum (Fin 4)), cells (JNum (Fin 1)) (JNum (Fin 1)),
      cells (JStr ''n/a'') (JNum (Fin 3)), cells (JNum (Fin 5)) JNull,
      cells (JNum (Fin 2)) (JNum (Fin 2)), withKey ''koi_period'' (JNum (Fin 4)) noRow]"

text \<open>Three rows with the tokens \<open>fp\<close>, \<open>FALSE POSITIVE\<close> and \<open>exploded\<close>.\<close>

definition tableTokens :: "row list" where
  "tableTokens = [labelled ''fp'', labelled ''FALSE POSITIVE'', labelled ''exploded'']"

text \<open>
  A row with the same cell under \<open>period\<close> and \<open>koi_period\<close>; a table of such rows
  with the periods 3, 1, \<open>null\<close>, 2, and one with the periods 0, 5.  A table with the
  column \<open>koi_period\<close> only, with the periods 5 and 7.
\<close>

definition bothPeriods :: "jsval \<Rightarrow> row" where
  "bothPeriods v = withKey ''period'' v (withKey ''koi_period'' v noRow)"

definition tableBoth :: "row list" where
  "tableBoth =
     [bothPeriods (JNum (Fin 3)), bothPeriods (JNum (Fin 1)), bothPeriods JNull,
      bothPeriods (JNum (Fin 2))]"

definition tableZeroBoth :: "row list" where
  "tableZeroBoth = [bothPeriods (JNum (Fin 0)), bothPeriods (JNum (Fin 5))]"

definition tableKoi :: "row list" where
  "tableKoi =
     [withKey ''koi_period'' (JNum (Fin 5)) noRow, withKey ''koi_period'' (JNum (Fin 7)) noRow]"

text \<open>Three rows with the period 10, under both names of the column.\<close>

definition rowTen :: row where
  "rowTen = withKey ''period'' (JNum (Fin 10)) (withKey ''koi_period'' (JNum (Fin 10)) noRow)"

definition tableTens :: "row list" where
  "tableTens = [rowTen, rowTen, rowTen]"

text \<open>
  One row with the period 0 and the radius 2, under the names that each scatter plot
  reads.
\<close>

definition tableZeroX :: "row list" where
  "tableZeroX =
     [withKey ''period'' (JNum (Fin 0)) (withKey ''radius'' (JNum (Fin 2))
        (withKey ''koi_period'' (JNum (Fin 0)) (withKey ''Period (days)'' (JNum (Fin 0))
           (withKey ''koi_prad'' (JNum (Fin 2)) noRow))))]"

text \<open>Confirmed planets with the periods 1 and 32; with 0 and 1; with -4 and 1.\<close>

definition confirmedWith :: "real \<Rightarrow> row" where
  "confirmedWith p = withKey ''koi_period'' (JNum (Fin p)) (labelled ''CONFIRMED'')"

definition tableOrbits :: "row list" where
  "tableOrbits = [confirmedWith 1, confirmedWith 32]"

definition tableZeroOrbit :: "row list" where
  "tableZeroOrbit = [confirmedWith 0, confirmedWith 1]"

definition tableNegativeOrbit :: "row list" where
  "tableNegativeOrbit = [confirmedWith (- 4), confirmedWith 1]"

text \<open>
  Two confirmed planets with the period 0: the first with the radius 0, the second with
  the radius \<open>null\<close>.
\<close>

definition tableZeros :: "row list" where
  "tableZeros =
     [withKey ''koi_prad'' (JNum (Fin 0)) (confirmedWith 0),
      withKey ''koi_prad'' JNull (confirmedWith 0)]"

section \<open>Evaluation of the examples\<close>

lemmas row_simps = labelled_def confirmedWith_def withKey_def noRow_def

lemmas disposition_simps = dispositionOf_def jor_def toUpperCase_def upperChar_def

section \<open>Counts per disposition\<close>

lemma increment_absent: "d \<notin> set (map fst counts) \<Longrightarrow> increment d counts = counts"
  unfolding increment_def by (induction counts) auto

lemma keys_increment: "map fst (increment d counts) = map fst counts"
  unfolding increment_def by (induction counts) auto

lemma total_increment:
  "distinct (map fst counts) \<Longrightarrow> hasKey d counts \<Longrightarrow>
   total (increment d counts) = total counts + 1"
proof (induction counts)
  case Nil
  then show ?case by (simp add: hasKey_def)
next
  case (Cons kc counts)
  obtain k c where kc: "kc = (k, c)" by (cases kc)
  show ?case
  proof (cases "k = d")
    case True
    with Cons.prems kc have "d \<notin> set (map fst counts)" by auto
    then have "increment d counts = counts" by (rule increment_absent)
    then have "increment d (kc # counts) = (k, c + 1) # counts"
      using True kc by (simp add: increment_def)
    then show ?thesis by (simp add: total_def kc)
  next
    case False
    with Cons.prems kc have "hasKey d counts" by (auto simp: hasKey_def)
    moreover from Cons.prems have "distinct (map fst counts)" by simp
    ultimately have "total (increment d counts) = total counts + 1"
      by (rule Cons.IH[rotated])
    then show ?thesis using False kc by (simp add: total_def increment_def)
  qed
qed

lemma total_bump: "distinct (map fst acc) \<Longrightarrow> total (bump d acc) = total acc + 1"
  by (simp add: bump_def total_increment) (simp add: total_def)

lemma keys_bump: "distinct (map fst acc) \<Longrightarrow> distinct (map fst (bump d acc))"
  by (simp add: bump_def keys_increment hasKey_def)

lemma fold_bump:
  "distinct (map fst acc) \<Longrightarrow>
   distinct (map fst (fold (\<lambda>r acc. bump (f r) acc) rows acc)) \<and>
   total (fold (\<lambda>r acc. bump (f r) acc) rows acc) = total acc + length rows"
  by (induction rows arbitrary: acc) (simp_all add: total_bump keys_bump)

lemma dispositions_total: "total (dispositions showNum rows) = length rows"
  using fold_bump[of "[]" "dispositionOf showNum ''Unknown''" rows]
  by (simp add: dispositions_def total_def)

lemma fold_counts:
  "distinct (map fst counts) \<Longrightarrow> map fst counts = ks \<Longrightarrow>
   map fst (fold (\<lambda>r counts. let d = f r
                               in if hasKey d counts then increment d counts else counts)
              rows counts) = ks \<and>
   total (fold (\<lambda>r counts. let d = f r
                             in if hasKey d counts then increment d counts else counts)
            rows counts)
     = total counts + length (filter (\<lambda>r. f r \<in> set ks) rows)"
proof (induction rows arbitrary: counts)
  case Nil
  then show ?case by simp
next
  case (Cons r rows)
  let ?c = "(let d = f r in if hasKey d counts then increment d counts else counts)"
  have k: "map fst ?c = ks" using Cons.prems by (simp add: keys_increment Let_def)
  with Cons.prems have d: "distinct (map fst ?c)" by simp
  have t: "total ?c = total counts + (if f r \<in> set ks then 1 else 0)"
    using Cons.prems by (simp add: Let_def total_increment) (auto simp add: hasKey_def)
  from Cons.IH[OF d k] show ?case using t by simp
qed

lemma dispositionCounts_total:
  "total (dispositionCounts showNum rows) =
   length (filter (\<lambda>r. dispositionOf showNum '''' r
                          \<in> {''CONFIRMED'', ''CANDIDATE'', ''FALSE POSITIVE''}) rows)"
  using fold_counts[of "[(''CONFIRMED'', 0), (''CANDIDATE'', 0), (''FALSE POSITIVE'', 0)]"
      "[''CONFIRMED'', ''CANDIDATE'', ''FALSE POSITIVE'']" "dispositionOf showNum ''''" rows]
  by (simp add: dispositionCounts_def total_def)

lemma dispositionCounts_keys:
  "map fst (dispositionCounts showNum rows) = [''CONFIRMED'', ''CANDIDATE'', ''FALSE POSITIVE'']"
  using fold_counts[of "[(''CONFIRMED'', 0), (''CANDIDATE'', 0), (''FALSE POSITIVE'', 0)]"
      "[''CONFIRMED'', ''CANDIDATE'', ''FALSE POSITIVE'']" "dispositionOf showNum ''''" rows]
  by (simp add: dispositionCounts_def)

lemma dispositions_keys: "distinct (map fst (dispositions showNum rows))"
  using fold_bump[of "[]" "dispositionOf showNum ''Unknown''" rows]
  by (simp add: dispositions_def)

lemma map_of_increment:
  "map_of (increment d counts) k
   = map_option (\<lambda>c. c + (if k = d then 1 else 0)) (map_of counts k)"
  unfolding increment_def by (induction counts) auto

lemma hasKey_map_of: "hasKey d counts \<longleftrightarrow> map_of counts d \<noteq> None"
  by (simp add: hasKey_def map_of_eq_None_iff)

lemma map_of_step:
  "map_of (let d = f r in if hasKey d counts then increment d counts else counts) k
   = map_option (\<lambda>c. c + (if f r = k then 1 else 0)) (map_of counts k)"
  by (cases "map_of counts k") (auto simp add: Let_def map_of_increment hasKey_map_of)

lemma map_of_fold_counts:
  "map_of (fold (\<lambda>r counts. let d = f r
                               in if hasKey d counts then increment d counts else counts)
              rows counts) k
   = map_option (\<lambda>c. c + length (filter (\<lambda>r. f r = k) rows)) (map_of counts k)"
proof (induction rows arbitrary: counts)
  case Nil
  then show ?case by (simp add: option.map_ident)
next
  case (Cons r rows)
  show ?case
    by (simp only: fold_simps Cons.IH map_of_step option.map_comp)
      (auto simp: comp_def intro!: option.map_cong)
qed

lemma dispositionCounts_lookup:
  "map_of (dispositionCounts showNum rows) k
   = (if k \<in> {''CONFIRMED'', ''CANDIDATE'', ''FALSE POSITIVE''}
      then Some (length (filter (\<lambda>r. dispositionOf showNum '''' r = k) rows)) else None)"
  unfolding dispositionCounts_def map_of_fold_counts by simp

lemma map_of_bump:
  "map_of (bump d acc) k
   = (if k = d then Some (case map_of acc k of None \<Rightarrow> 1 | Some c \<Rightarrow> c + 1)
      else map_of acc k)"
  by (cases "map_of acc d")
    (auto simp add: bump_def map_of_increment hasKey_map_of map_of_append map_add_def
      option.map_ident split: option.splits)

lemma map_of_fold_bump:
  "map_of (fold (\<lambda>r acc. bump (f r) acc) rows acc) k
   = (case map_of acc k of
        None \<Rightarrow> (if filter (\<lambda>r. f r = k) rows = [] then None
                  else Some (length (filter (\<lambda>r. f r = k) rows)))
      | Some c \<Rightarrow> Some (c + length (filter (\<lambda>r. f r = k) rows)))"
proof (induction rows arbitrary: acc)
  case Nil
  then show ?case by (simp split: option.splits)
next
  case (Cons r rows)
  show ?case
    by (simp only: fold_simps Cons.IH map_of_bump) (auto split: option.splits)
qed

lemma dispositions_lookup:
  "map_of (dispositions showNum rows) k
   = (if filter (\<lambda>r. dispositionOf showNum ''Unknown'' r = k) rows = [] then None
      else Some (length (filter (\<lambda>r. dispositionOf showNum ''Unknown'' r = k) rows)))"
  unfolding dispositions_def map_of_fold_bump by simp

text \<open>
  C1, as the code has it.  The counts of the data exploration (\<open>stats.dispositions\<close>)
  have one key per distinct token (in upper case, \<open>UNKNOWN\<close> for a missing or empty
  one); the count of a key is the number of rows with that token, and the counts sum
  to the number of rows of the table.  The counts of the classification results
  (\<open>dispositionCounts\<close>) have the three keys \<open>CONFIRMED\<close>, \<open>CANDIDATE\<close> and
  \<open>FALSE POSITIVE\<close> only; the count of each is the number of rows with that token, and
  they sum to the number of rows whose token is one of the three: a row with any other
  token is counted under no key, and the sum is at most the number of rows.
\<close>

theorem counts_sum:
  "total (dispositions showNum rows) = length rows
   \<and> distinct (map fst (dispositions showNum rows))
   \<and> map_of (dispositions showNum rows) k
       = (if filter (\<lambda>r. dispositionOf showNum ''Unknown'' r = k) rows = [] then None
          else Some (length (filter (\<lambda>r. dispositionOf showNum ''Unknown'' r = k) rows)))
   \<and> map fst (dispositionCounts showNum rows) = [''CONFIRMED'', ''CANDIDATE'', ''FALSE POSITIVE'']
   \<and> map_of (dispositionCounts showNum rows) k
       = (if k \<in> {''CONFIRMED'', ''CANDIDATE'', ''FALSE POSITIVE''}
          then Some (length (filter (\<lambda>r. dispositionOf showNum '''' r = k) rows)) else None)
   \<and> total (dispositionCounts showNum rows) =
       length (filter (\<lambda>r. dispositionOf showNum '''' r
                              \<in> {''CONFIRMED'', ''CANDIDATE'', ''FALSE POSITIVE''}) rows)
   \<and> total (dispositionCounts showNum rows) \<le> length rows"
proof -
  have "total (dispositionCounts showNum rows) \<le> length rows"
    unfolding dispositionCounts_total by (rule length_filter_le)
  then show ?thesis
    using dispositions_total dispositionCounts_total dispositions_keys dispositionCounts_keys
      dispositions_lookup dispositionCounts_lookup
    by simp
qed

text \<open>
  C1 as stated fails for \<open>dispositionCounts\<close>: the table of one row with the token
  \<open>exploded\<close> has the counts 0, 0 and 0, which do not sum to its one row.
\<close>

theorem counts_sum_counterexample:
  "dispositionCounts constShow tableExploded
     = [(''CONFIRMED'', 0), (''CANDIDATE'', 0), (''FALSE POSITIVE'', 0)]
   \<and> total (dispositionCounts constShow tableExploded) \<noteq> length tableExploded"
  by (simp add: tableExploded_def dispositionCounts_def row_simps disposition_simps
      hasKey_def total_def)

section \<open>Percentages of the summary cards\<close>

lemma dispositionCounts_empty:
  "dispositionCounts showNum [] = [(''CONFIRMED'', 0), (''CANDIDATE'', 0), (''FALSE POSITIVE'', 0)]"
  by (simp add: dispositionCounts_def)

lemma percentages_lookup:
  "map_of (percentages showNum rows) k
   = map_option (\<lambda>n. percentage n rows) (map_of (dispositionCounts showNum rows) k)"
  by (simp add: percentages_def map_of_map)

text \<open>
  On a table with at least one row the percentage of a label is the number of rows
  with that label divided by the number of rows, times 100, and the guarded quotient of
  the insights panel is the same number.
\<close>

lemma percentages_nonempty:
  assumes "rows \<noteq> []"
  shows "map_of (percentages showNum rows) k
        = (if k \<in> {''CONFIRMED'', ''CANDIDATE'', ''FALSE POSITIVE''}
           then Some (Fin (real (length (filter (\<lambda>r. dispositionOf showNum '''' r = k) rows))
                            / real (length rows) * 100))
           else None)"
  using assms by (simp add: percentages_lookup dispositionCounts_lookup percentage_def)

lemma insightPercentage_nonempty:
  "rows \<noteq> [] \<Longrightarrow> insightPercentage n rows = percentage n rows"
  by (simp add: insightPercentage_def percentage_def truthyNum_def Let_def)

lemma percentages_tableFour:
  "percentages constShow tableFour
     = [(''CONFIRMED'', Fin 50), (''CANDIDATE'', Fin 50), (''FALSE POSITIVE'', Fin 0)]"
proof -
  have counts: "dispositionCounts constShow tableFour
      = [(''CONFIRMED'', 2), (''CANDIDATE'', 2), (''FALSE POSITIVE'', 0)]"
    by (simp add: tableFour_def dispositionCounts_def row_simps disposition_simps
        hasKey_def increment_def)
  have len: "length tableFour = 4" by (simp add: tableFour_def)
  show ?thesis by (simp add: percentages_def percentage_def counts len)
qed

text \<open>
  C3 at the table with no row.  The summary card divides the count 0 by the length 0:
  the percentage of each of the three labels is \<open>NaN\<close>, where the claim defines it
  as 0.  The insights panel divides by \<open>length || 1\<close>, and its percentage of the
  count 0 on the table with no row is 0.
\<close>

theorem percentage_empty_table:
  "percentages constShow []
     = [(''CONFIRMED'', NaN), (''CANDIDATE'', NaN), (''FALSE POSITIVE'', NaN)]
   \<and> percentage 0 [] = NaN
   \<and> insightPercentage 0 [] = Fin 0"
  by (simp add: percentages_def percentage_def dispositionCounts_empty insightPercentage_def
      truthyNum_def)

section \<open>The colour and the key of a disposition\<close>

lemma toUpperCase_literals:
  "toUpperCase ''fp'' = ''FP''" "toUpperCase ''exploded'' = ''EXPLODED''"
  "toUpperCase ''CP'' = ''CP''" "toUpperCase ''PC'' = ''PC''" "toUpperCase ''FP'' = ''FP''"
  "toUpperCase ''CONFIRMED'' = ''CONFIRMED''" "toUpperCase ''CANDIDATE'' = ''CANDIDATE''"
  "toUpperCase ''FALSE POSITIVE'' = ''FALSE POSITIVE''" "toUpperCase ''UNKNOWN'' = ''UNKNOWN''"
  "toUpperCase '''' = ''''"
  by (simp_all add: toUpperCase_def upperChar_def)

lemma upperChar_idem: "upperChar (upperChar c) = upperChar c"
  by (auto simp add: upperChar_def split: option.splits if_splits)

lemma toUpperCase_idem: "toUpperCase (toUpperCase s) = toUpperCase s"
  by (simp add: toUpperCase_def upperChar_idem)

lemma color_upper: "color (Some (toUpperCase s)) = color (Some s)"
  by (simp add: color_def toUpperCase_idem)

lemma key_missing:
  "\<not> truthy (r ''Predicted_Disposition'') \<Longrightarrow>
   dispositionOf showNum ''Unknown'' r = ''UNKNOWN''"
  by (simp add: dispositionOf_def jor_def toUpperCase_def upperChar_def)

lemma key_token:
  "r ''Predicted_Disposition'' = JStr s \<Longrightarrow> s \<noteq> [] \<Longrightarrow>
   dispositionOf showNum dflt r = toUpperCase s"
  by (simp add: dispositionOf_def jor_def)

text \<open>
  C4, as the code has it.  Two functions turn a token into a label.

  \<open>color\<close>, which paints the dots and the legend, is the one that knows the
  abbreviations.  The class of a token is the entry of the legend (\<open>CONFIRMED\<close>,
  \<open>CANDIDATE\<close>, \<open>FALSE POSITIVE\<close>, \<open>UNKNOWN\<close>) that \<open>color\<close> paints like the
  token.  \<open>color\<close> is total; every token, and the missing token, has the colour of
  one of the four entries, which have four different colours.  Two tokens that agree in
  upper case have the same class.  \<open>CP\<close> and \<open>CONFIRMED\<close> are in the class
  \<open>CONFIRMED\<close>, \<open>PC\<close> and \<open>CANDIDATE\<close> in \<open>CANDIDATE\<close>, \<open>FP\<close> and
  \<open>FALSE POSITIVE\<close> in \<open>FALSE POSITIVE\<close>, in any letter case; every other token,
  the empty token and the missing token are in \<open>UNKNOWN\<close>.  So \<open>fp\<close> is
  \<open>FALSE POSITIVE\<close> and \<open>exploded\<close> is \<open>UNKNOWN\<close>.

  The key under which \<open>stats.dispositions\<close> counts a row is the token of the row in
  upper case and nothing more: the key of a row with a non-empty text token is that
  text in upper case, whatever it is, and the key of a row with a missing or empty
  token is \<open>UNKNOWN\<close>.  The key has the class of the token.
\<close>

theorem color_canonical:
  "color t \<in> set (map (\<lambda>d. color (Some d)) legend)
   \<and> distinct (map (\<lambda>d. color (Some d)) legend)
   \<and> (toUpperCase s = toUpperCase s' \<longrightarrow> color (Some s) = color (Some s'))
   \<and> (toUpperCase s \<in> {''CP'', ''CONFIRMED''} \<longrightarrow> color (Some s) = color (Some ''CONFIRMED''))
   \<and> (toUpperCase s \<in> {''PC'', ''CANDIDATE''} \<longrightarrow> color (Some s) = color (Some ''CANDIDATE''))
   \<and> (toUpperCase s \<in> {''FP'', ''FALSE POSITIVE''}
        \<longrightarrow> color (Some s) = color (Some ''FALSE POSITIVE''))
   \<and> (toUpperCase s \<notin> {''CP'', ''CONFIRMED'', ''PC'', ''CANDIDATE'', ''FP'', ''FALSE POSITIVE''}
        \<longrightarrow> color (Some s) = color (Some ''UNKNOWN''))
   \<and> color (Some ''fp'') = color (Some ''FALSE POSITIVE'')
   \<and> color (Some ''exploded'') = color (Some ''UNKNOWN'')
   \<and> color (Some '''') = color (Some ''UNKNOWN'')
   \<and> color None = color (Some ''UNKNOWN'')
   \<and> (r ''Predicted_Disposition'' = JStr s \<and> s \<noteq> []
        \<longrightarrow> dispositionOf showNum ''Unknown'' r = toUpperCase s)
   \<and> (\<not> truthy (r ''Predicted_Disposition'')
        \<longrightarrow> dispositionOf showNum ''Unknown'' r = ''UNKNOWN'')
   \<and> color (Some (dispositionOf showNum ''Unknown'' r))
       = color (Some (jsString showNum (jor (r ''Predicted_Disposition'') (JStr ''Unknown''))))"
proof -
  have lg: "map (\<lambda>d. color (Some d)) legend = [''#10b981'', ''#facc15'', ''#ef4444'', ''#94a3b8'']"
    by (simp add: legend_def color_def toUpperCase_literals)
  have one: "color t \<in> {''#10b981'', ''#facc15'', ''#ef4444'', ''#94a3b8''}"
    by (simp add: color_def Let_def)
  have ci: "toUpperCase s = toUpperCase s' \<longrightarrow> color (Some s) = color (Some s')"
    by (simp add: color_def)
  have key: "color (Some (dispositionOf showNum ''Unknown'' r))
       = color (Some (jsString showNum (jor (r ''Predicted_Disposition'') (JStr ''Unknown''))))"
    unfolding dispositionOf_def by (rule color_upper)
  have tok: "r ''Predicted_Disposition'' = JStr s \<and> s \<noteq> []
        \<longrightarrow> dispositionOf showNum ''Unknown'' r = toUpperCase s"
    using key_token[of r s showNum "''Unknown''"] by blast
  have tokens: "(toUpperCase s \<in> {''CP'', ''CONFIRMED''} \<longrightarrow> color (Some s) = color (Some ''CONFIRMED''))
   \<and> (toUpperCase s \<in> {''PC'', ''CANDIDATE''} \<longrightarrow> color (Some s) = color (Some ''CANDIDATE''))
   \<and> (toUpperCase s \<in> {''FP'', ''FALSE POSITIVE''}
        \<longrightarrow> color (Some s) = color (Some ''FALSE POSITIVE''))
   \<and> (toUpperCase s \<notin> {''CP'', ''CONFIRMED'', ''PC'', ''CANDIDATE'', ''FP'', ''FALSE POSITIVE''}
        \<longrightarrow> color (Some s) = color (Some ''UNKNOWN''))
   \<and> color (Some ''fp'') = color (Some ''FALSE POSITIVE'')
   \<and> color (Some ''exploded'') = color (Some ''UNKNOWN'')
   \<and> color (Some '''') = color (Some ''UNKNOWN'')
   \<and> color None = color (Some ''UNKNOWN'')"
    by (simp add: color_def toUpperCase_literals)
  show ?thesis
    using one ci key tok tokens key_missing[of r showNum] unfolding lg by simp
qed

theorem color_canonical_witness:
  "color (Some ''fP'') = color (Some ''Fp'')
   \<and> color (Some ''Confirmed'') = color (Some ''CONFIRMED'')
   \<and> color (Some ''pc'') = color (Some ''CANDIDATE'')
   \<and> color (Some ''False Positive'') = color (Some ''FALSE POSITIVE'')
   \<and> dispositionOf constShow ''Unknown'' (labelled ''Confirmed'') = ''CONFIRMED''
   \<and> dispositionOf constShow ''Unknown'' noRow = ''UNKNOWN''"
proof -
  have cell: "labelled ''Confirmed'' ''Predicted_Disposition'' = JStr ''Confirmed''"
    "\<not> truthy (noRow ''Predicted_Disposition'')"
    by (simp_all add: row_simps)
  have up: "toUpperCase ''Confirmed'' = ''CONFIRMED''" "toUpperCase ''fP'' = toUpperCase ''Fp''"
    "toUpperCase ''pc'' = ''PC''" "toUpperCase ''False Positive'' = ''FALSE POSITIVE''"
    by (simp_all add: toUpperCase_def upperChar_def)
  from color_canonical [of "Some ''fP''" "''fP''" "''Fp''" noRow constShow] up cell
  have a: "color (Some ''fP'') = color (Some ''Fp'')"
    "dispositionOf constShow ''Unknown'' noRow = ''UNKNOWN''"
    by blast+
  from color_canonical [of None "''Confirmed''" "''x''" "labelled ''Confirmed''" constShow] up cell
  have b: "color (Some ''Confirmed'') = color (Some ''CONFIRMED'')"
    "dispositionOf constShow ''Unknown'' (labelled ''Confirmed'') = ''CONFIRMED''"
    by simp_all
  from color_canonical [of None "''pc''" "''x''" noRow constShow] up
  have c: "color (Some ''pc'') = color (Some ''CANDIDATE'')" by simp
  from color_canonical [of None "''False Positive''" "''x''" noRow constShow] up
  have d: "color (Some ''False Positive'') = color (Some ''FALSE POSITIVE'')" by simp
  show ?thesis using a b c d by simp
qed

text \<open>
  C4 as stated fails for the key of \<open>stats.dispositions\<close>: the abbreviation \<open>fp\<close>
  is counted under \<open>FP\<close>, apart from \<open>FALSE POSITIVE\<close>, and \<open>exploded\<close> under
  \<open>EXPLODED\<close>; neither key is one of the labels, with the third label spelled either
  way.
\<close>

theorem canonical_counterexample:
  "dispositionOf constShow ''Unknown'' (labelled ''fp'') = ''FP''
   \<and> ''FP'' \<notin> {''CONFIRMED'', ''CANDIDATE'', ''FALSE POSITIVE'', ''FALSE_POSITIVE'', ''UNKNOWN''}
   \<and> dispositionOf constShow ''Unknown'' (labelled ''exploded'') = ''EXPLODED''
   \<and> ''EXPLODED'' \<notin> {''CONFIRMED'', ''CANDIDATE'', ''FALSE POSITIVE'', ''FALSE_POSITIVE'', ''UNKNOWN''}
   \<and> dispositions constShow tableTokens
       = [(''FP'', 1), (''FALSE POSITIVE'', 1), (''EXPLODED'', 1)]"
  by (simp add: tableTokens_def dispositions_def bump_def hasKey_def row_simps
      disposition_simps)

section \<open>Sorting\<close>

lemma jle_refl: "\<not> isNaN a \<Longrightarrow> jle a a"
  by (cases a) auto

lemma jle_total: "\<not> isNaN a \<Longrightarrow> \<not> isNaN b \<Longrightarrow> \<not> jle a b \<Longrightarrow> jle b a"
  by (cases a; cases b) auto

lemma jle_trans: "jle a b \<Longrightarrow> jle b c \<Longrightarrow> jle a c"
  by (cases a; cases b; cases c) auto

lemma jlt_notNaN: "jlt a v \<Longrightarrow> \<not> isNaN v"
  by (cases a; cases v) auto

lemma mset_insertAsc: "mset (insertAsc a xs) = add_mset a (mset xs)"
  by (induction xs) auto

lemma mset_sortAsc: "mset (sortAsc xs) = mset xs"
  unfolding sortAsc_def by (induction xs) (auto simp: mset_insertAsc)

lemma set_sortAsc: "set (sortAsc xs) = set xs"
  using mset_sortAsc[of xs] by (metis set_mset_mset)

lemma length_sortAsc: "length (sortAsc xs) = length xs"
  using mset_sortAsc[of xs] by (metis size_mset)

lemma sortAsc_Nil_iff: "sortAsc xs = [] \<longleftrightarrow> xs = []"
  using length_sortAsc[of xs] by (metis length_0_conv)

lemma set_insertAsc: "set (insertAsc a xs) = insert a (set xs)"
  using mset_insertAsc[of a xs] by (metis set_mset_mset set_mset_add_mset_insert)

lemma sorted_insertAsc:
  "\<not> isNaN a \<Longrightarrow> \<forall>x\<in>set xs. \<not> isNaN x \<Longrightarrow> sorted_wrt jle xs \<Longrightarrow>
   sorted_wrt jle (insertAsc a xs)"
proof (induction xs)
  case Nil
  then show ?case by simp
next
  case (Cons b bs)
  show ?case
  proof (cases "jle a b")
    case True
    then have "\<forall>x\<in>set bs. jle a x" using Cons.prems(3) by (auto intro: jle_trans)
    with True Cons.prems show ?thesis by simp
  next
    case False
    then have "jle b a" using Cons.prems by (auto intro: jle_total)
    moreover have "sorted_wrt jle (insertAsc a bs)" using Cons by simp
    ultimately show ?thesis using False Cons.prems(3) by (auto simp: set_insertAsc)
  qed
qed

lemma sorted_sortAsc: "\<forall>x\<in>set xs. \<not> isNaN x \<Longrightarrow> sorted_wrt jle (sortAsc xs)"
proof (induction xs)
  case Nil
  then show ?case by (simp add: sortAsc_def)
next
  case (Cons a xs)
  then have "sorted_wrt jle (sortAsc xs)" by simp
  moreover have "\<forall>x\<in>set (sortAsc xs). \<not> isNaN x" using Cons.prems by (simp add: set_sortAsc)
  ultimately have "sorted_wrt jle (insertAsc a (sortAsc xs))"
    using Cons.prems by (intro sorted_insertAsc) auto
  then show ?case by (simp add: sortAsc_def)
qed

lemma sorted_first_least:
  assumes "sorted_wrt jle xs" "\<forall>x\<in>set xs. \<not> isNaN x" "x \<in> set xs"
  shows "jle (xs ! 0) x"
proof -
  from assms(3) obtain i where i: "i < length xs" "xs ! i = x" by (auto simp: in_set_conv_nth)
  show ?thesis
  proof (cases "i = 0")
    case True
    with i assms(2,3) show ?thesis by (auto intro: jle_refl)
  next
    case False
    with i assms(1) show ?thesis using sorted_wrt_nth_less[of jle xs 0 i] by auto
  qed
qed

lemma sorted_last_greatest:
  assumes "sorted_wrt jle xs" "\<forall>x\<in>set xs. \<not> isNaN x" "x \<in> set xs"
  shows "jle x (xs ! (length xs - 1))"
proof -
  from assms(3) obtain i where i: "i < length xs" "xs ! i = x" by (auto simp: in_set_conv_nth)
  show ?thesis
  proof (cases "i = length xs - 1")
    case True
    with i assms(2,3) show ?thesis by (auto intro: jle_refl)
  next
    case False
    with i have "i < length xs - 1" by simp
    with i assms(1) show ?thesis using sorted_wrt_nth_less[of jle xs i "length xs - 1"] by auto
  qed
qed

section \<open>Column statistics\<close>

lemma numericVals_notNaN: "\<forall>v\<in>set (numericVals pf rows col). \<not> isNaN v"
  by (simp add: numericVals_def)

lemma foldl_jadd_Fin: "foldl jadd (Fin a) (map Fin xs) = Fin (a + sum_list xs)"
  by (induction xs arbitrary: a) (simp_all add: add.assoc)

lemma sum_sorted_Fin:
  assumes "vals = map Fin xs"
  shows "foldl jadd (Fin 0) (sortAsc vals) = Fin (sum_list xs)"
proof -
  define unFin where "unFin = (\<lambda>v. case v of Fin a \<Rightarrow> a | _ \<Rightarrow> (0::real))"
  let ?ys = "map unFin (sortAsc vals)"
  have "\<forall>v\<in>set (sortAsc vals). Fin (unFin v) = v"
    using assms by (auto simp: set_sortAsc unFin_def)
  then have s: "sortAsc vals = map Fin ?ys"
    by (simp add: map_idI)
  have "map unFin vals = xs" using assms by (simp add: comp_def unFin_def)
  moreover have "mset ?ys = image_mset unFin (mset (sortAsc vals))" by simp
  ultimately have "mset ?ys = mset xs" by (metis mset_sortAsc mset_map)
  then have "sum_list ?ys = sum_list xs" by (metis sum_mset_sum_list)
  then show ?thesis using foldl_jadd_Fin[of 0 ?ys] s by simp
qed

lemma fold_cols:
  "fold (\<lambda>col acc. case f col of None \<Rightarrow> acc | Some s \<Rightarrow> acc @ [(col, s)]) cols acc
   = acc @ concat (map (\<lambda>c. case f c of None \<Rightarrow> [] | Some s \<Rightarrow> [(c, s)]) cols)"
  by (induction cols arbitrary: acc) (auto split: option.splits)

lemma map_of_cols:
  "map_of (concat (map (\<lambda>c. case f c of None \<Rightarrow> [] | Some s \<Rightarrow> [(c, s)]) cols)) col
   = (if col \<in> set cols then f col else None)"
  by (induction cols) (auto split: option.splits)

lemma columns_lookup:
  "map_of (columns pf rows) col
   = (if col \<in> set numericCols then columnSummary pf rows col else None)"
  by (simp add: columns_def fold_cols map_of_cols)

lemma summary_count:
  "(case columnSummary pf rows col of None \<Rightarrow> 0 | Some s \<Rightarrow> stat_count s)
   = length (filter (\<lambda>r. \<not> isNaN (parseFloat pf (r col))) rows)"
  by (simp add: columnSummary_def Let_def columnVals_def length_sortAsc sortAsc_Nil_iff
      numericVals_def filter_map comp_def)

text \<open>
  C8.  The numeric values of a column are the parsed cells that are not \<open>NaN\<close>; the
  sorted values are these in ascending order (the same values, each as often).  A
  column with no numeric value has no summary and no entry in the result.  A column
  with numeric values has a summary whose count is their number, whose minimum and
  maximum are the first and the last of the sorted values (values of the column, below
  and above every value), whose median is the sorted value at index \<open>n div 2\<close>, and
  whose mean is the sum of the sorted values divided by their number, which for finite
  values is their arithmetic mean; for a column of the list of numeric columns, that
  summary is its entry in the result.
\<close>

theorem columnSummary_spec:
  "(numericVals pf rows col = [] \<longrightarrow>
      columnSummary pf rows col = None \<and> map_of (columns pf rows) col = None)
   \<and> (numericVals pf rows col \<noteq> [] \<longrightarrow>
        (\<exists>s. columnSummary pf rows col = Some s
           \<and> (col \<in> set numericCols \<longrightarrow> map_of (columns pf rows) col = Some s)
           \<and> stat_count s = length (numericVals pf rows col)
           \<and> stat_min s = columnVals pf rows col ! 0
           \<and> stat_min s \<in> set (numericVals pf rows col)
           \<and> (\<forall>v\<in>set (numericVals pf rows col). jle (stat_min s) v)
           \<and> stat_max s = last (columnVals pf rows col)
           \<and> stat_max s \<in> set (numericVals pf rows col)
           \<and> (\<forall>v\<in>set (numericVals pf rows col). jle v (stat_max s))
           \<and> stat_median s = columnVals pf rows col ! (length (numericVals pf rows col) div 2)
           \<and> stat_mean s = jdiv (foldl jadd (Fin 0) (columnVals pf rows col))
                                 (Fin (real (length (numericVals pf rows col))))
           \<and> (\<forall>xs. numericVals pf rows col = map Fin xs \<longrightarrow>
                  stat_mean s = Fin (sum_list xs / real (length xs)))))
   \<and> sorted_wrt jle (columnVals pf rows col)
   \<and> mset (columnVals pf rows col) = mset (numericVals pf rows col)"
proof -
  let ?vals = "numericVals pf rows col"
  let ?sv = "columnVals pf rows col"
  have nn: "\<forall>v\<in>set ?vals. \<not> isNaN v" by (rule numericVals_notNaN)
  have srt: "sorted_wrt jle ?sv" unfolding columnVals_def using nn by (rule sorted_sortAsc)
  have ms: "mset ?sv = mset ?vals" by (simp add: columnVals_def mset_sortAsc)
  have len: "length ?sv = length ?vals" by (simp add: columnVals_def length_sortAsc)
  have st: "set ?sv = set ?vals" by (simp add: columnVals_def set_sortAsc)
  have empty: "?vals = [] \<longrightarrow>
      columnSummary pf rows col = None \<and> map_of (columns pf rows) col = None"
    using len by (auto simp add: columnSummary_def columns_lookup Let_def)
  have nonempty: "\<exists>s. columnSummary pf rows col = Some s
           \<and> (col \<in> set numericCols \<longrightarrow> map_of (columns pf rows) col = Some s)
           \<and> stat_count s = length ?vals
           \<and> stat_min s = ?sv ! 0
           \<and> stat_min s \<in> set ?vals
           \<and> (\<forall>v\<in>set ?vals. jle (stat_min s) v)
           \<and> stat_max s = last ?sv
           \<and> stat_max s \<in> set ?vals
           \<and> (\<forall>v\<in>set ?vals. jle v (stat_max s))
           \<and> stat_median s = ?sv ! (length ?vals div 2)
           \<and> stat_mean s = jdiv (foldl jadd (Fin 0) ?sv) (Fin (real (length ?vals)))
           \<and> (\<forall>xs. ?vals = map Fin xs \<longrightarrow> stat_mean s = Fin (sum_list xs / real (length xs)))"
    if ne: "?vals \<noteq> []"
  proof -
    from ne len have pos: "0 < length ?sv" by simp
    then have sne: "?sv \<noteq> []" by auto
    define s where "s = \<lparr> stat_min = ?sv ! 0, stat_max = ?sv ! (length ?sv - 1),
        stat_mean = jdiv (foldl jadd (Fin 0) ?sv) (Fin (real (length ?sv))),
        stat_median = ?sv ! (length ?sv div 2), stat_count = length ?sv \<rparr>"
    have cs: "columnSummary pf rows col = Some s"
      using pos by (simp add: columnSummary_def Let_def s_def)
    have nn': "\<forall>v\<in>set ?sv. \<not> isNaN v" using nn st by simp
    have mn_in: "?sv ! 0 \<in> set ?vals" using pos st nth_mem by blast
    have mx_in: "?sv ! (length ?sv - 1) \<in> set ?vals" using pos st nth_mem
      by (metis diff_less zero_less_one)
    have mn_le: "\<forall>v\<in>set ?vals. jle (?sv ! 0) v"
      using sorted_first_least[OF srt nn'] st by simp
    have mx_ge: "\<forall>v\<in>set ?vals. jle v (?sv ! (length ?sv - 1))"
      using sorted_last_greatest[OF srt nn'] st by simp
    have lst: "last ?sv = ?sv ! (length ?sv - 1)" using sne by (rule last_conv_nth)
    have mean: "\<forall>xs. ?vals = map Fin xs \<longrightarrow> stat_mean s = Fin (sum_list xs / real (length xs))"
    proof (intro allI impI)
      fix xs assume xs: "?vals = map Fin xs"
      then have "foldl jadd (Fin 0) ?sv = Fin (sum_list xs)"
        unfolding columnVals_def by (rule sum_sorted_Fin)
      moreover have "length ?sv = length xs" using len xs by (metis length_map)
      moreover have "xs \<noteq> []" using ne xs by auto
      ultimately show "stat_mean s = Fin (sum_list xs / real (length xs))"
        by (simp add: s_def)
    qed
    show ?thesis
      apply (rule exI[of _ s])
      using cs mn_in mx_in mn_le mx_ge lst mean len
      by (simp add: s_def columns_lookup)
  qed
  show ?thesis using empty nonempty srt ms by blast
qed

lemma tableColumns_vals:
  "numericVals constParse tableColumns ''koi_period'' = [Fin 3, Fin 1, Fin 5, Fin 2, Fin 4]"
  "columnVals constParse tableColumns ''koi_period'' = [Fin 1, Fin 2, Fin 3, Fin 4, Fin 5]"
  "numericVals constParse tableColumns ''koi_prad'' = [Fin 4, Fin 1, Fin 3, Fin 2]"
  "columnVals constParse tableColumns ''koi_prad'' = [Fin 1, Fin 2, Fin 3, Fin 4]"
  "numericVals constParse tableColumns ''koi_depth'' = []"
  by (simp_all add: columnVals_def numericVals_def tableColumns_def cells_def row_simps
      constParse_def sortAsc_def)

text \<open>
  The witness: the periods 3, 1, \<open>n/a\<close>, 5, 2, 4 have the minimum 1, the maximum 5,
  the mean 3, the median 3 and the count 5; the four radii 4, 1, 3, 2 have the median
  3, the sorted value at index 2, and the mean 2.5; the column \<open>koi_depth\<close>, with no
  numeric value, has no entry.
\<close>

theorem columnSummary_spec_witness:
  "columnSummary constParse tableColumns ''koi_period''
     = Some \<lparr> stat_min = Fin 1, stat_max = Fin 5, stat_mean = Fin 3, stat_median = Fin 3,
              stat_count = 5 \<rparr>
   \<and> map_of (columns constParse tableColumns) ''koi_period''
     = Some \<lparr> stat_min = Fin 1, stat_max = Fin 5, stat_mean = Fin 3, stat_median = Fin 3,
              stat_count = 5 \<rparr>
   \<and> map_of (columns constParse tableColumns) ''koi_prad''
     = Some \<lparr> stat_min = Fin 1, stat_max = Fin 4, stat_mean = Fin (5 / 2), stat_median = Fin 3,
              stat_count = 4 \<rparr>
   \<and> map_of (columns constParse tableColumns) ''koi_depth'' = None"
proof -
  let ?vals = "numericVals constParse tableColumns ''koi_period''"
  let ?sv = "columnVals constParse tableColumns ''koi_period''"
  have ne: "?vals \<noteq> []"
    by (simp add: tableColumns_vals)
  have col: "''koi_period'' \<in> set numericCols" by (simp add: numericCols_def)
  from columnSummary_spec [of constParse tableColumns "''koi_period''"] ne col
  obtain s where cs: "columnSummary constParse tableColumns ''koi_period'' = Some s"
    and cols: "map_of (columns constParse tableColumns) ''koi_period'' = Some s"
    and cnt: "stat_count s = length ?vals"
    and mn: "stat_min s = ?sv ! 0"
    and mx: "stat_max s = last ?sv"
    and med: "stat_median s = ?sv ! (length ?vals div 2)"
    and mean: "\<forall>xs. ?vals = map Fin xs \<longrightarrow> stat_mean s = Fin (sum_list xs / real (length xs))"
    by blast
  have "?vals = map Fin [3, 1, 5, 2, 4]" by (simp add: tableColumns_vals)
  with mean have "stat_mean s = Fin (sum_list [3, 1, 5, 2, 4] / real (length [3, 1, 5, 2, 4 :: real]))"
    by blast
  then have mean3: "stat_mean s = Fin 3" by simp
  have cnt5: "stat_count s = 5" using cnt by (simp add: tableColumns_vals)
  have mn1: "stat_min s = Fin 1" using mn by (simp add: tableColumns_vals)
  have mx5: "stat_max s = Fin 5" using mx by (simp add: tableColumns_vals)
  have med3: "stat_median s = Fin 3" using med by (simp add: tableColumns_vals)
  have s: "s = \<lparr> stat_min = Fin 1, stat_max = Fin 5, stat_mean = Fin 3, stat_median = Fin 3,
              stat_count = 5 \<rparr>"
    using mean3 cnt5 mn1 mx5 med3 by (cases s) simp
  have prad: "map_of (columns constParse tableColumns) ''koi_prad''
     = Some \<lparr> stat_min = Fin 1, stat_max = Fin 4, stat_mean = Fin (5 / 2), stat_median = Fin 3,
              stat_count = 4 \<rparr>"
    by (simp add: columns_lookup numericCols_def columnSummary_def tableColumns_vals)
  have none: "map_of (columns constParse tableColumns) ''koi_depth'' = None"
    using columnSummary_spec [of constParse tableColumns "''koi_depth''"]
    by (simp only: tableColumns_vals)
  show ?thesis using cs cols prad none unfolding s by simp
qed

section \<open>Histograms\<close>

lemma binCount_ge: "5 \<le> binCount n"
  by (simp add: binCount_def)

lemma binCount_small: "n \<le> 30 \<Longrightarrow> binCount n = 5"
proof -
  assume n: "n \<le> 30"
  have "sqrt (real n) < 11 / 2"
    by (rule real_less_lsqrt) (use n in \<open>simp_all add: power2_eq_square\<close>)
  then have "round (sqrt (real n)) \<le> 5"
    unfolding round_def by (simp add: floor_le_iff)
  then show ?thesis by (simp add: binCount_def)
qed

lemma sum_list_incr: "k < length h \<Longrightarrow> sum_list (h[k := h ! k + 1]) = sum_list h + (1::nat)"
  by (simp add: sum_list_update)

lemma incrAt_nat: "k < length h \<Longrightarrow> incrAt (Fin (real k)) h = h[k := h ! k + 1]"
  by simp

lemma Math_min_nat: "Math_min (Fin (real j)) (Fin (real k)) = Fin (real (min j k))"
  by (simp add: Math_min_def min_def)

lemma bin_index:
  assumes "m \<le> x" "0 < w" "1 \<le> n"
  shows "\<exists>k. Math_min (Fin (real (n - 1))) (Math_floor (jdiv (jsub (Fin x) (Fin m)) (Fin w)))
              = Fin (real k) \<and> k < n"
proof -
  let ?z = "\<lfloor>(x - m) / w\<rfloor>"
  have z: "0 \<le> ?z" using assms by simp
  then have "of_int ?z = real (nat ?z)" by simp
  then have fl: "Math_floor (jdiv (jsub (Fin x) (Fin m)) (Fin w)) = Fin (real (nat ?z))"
    using assms(2) by (simp add: jsub_def)
  have "min (n - 1) (nat ?z) < n" using assms(3) by simp
  then show ?thesis unfolding fl Math_min_nat by blast
qed

lemma fold_incr:
  assumes "\<forall>v\<in>set vals. \<exists>k. idx v = Fin (real k) \<and> k < n" "length h = n"
  shows "length (fold (\<lambda>v h. incrAt (idx v) h) vals h) = n
         \<and> sum_list (fold (\<lambda>v h. incrAt (idx v) h) vals h) = sum_list h + length vals"
  using assms
proof (induction vals arbitrary: h)
  case Nil
  then show ?case by simp
next
  case (Cons v vals)
  from Cons.prems obtain k where k: "idx v = Fin (real k)" "k < n" by auto
  with Cons.prems(2) have step: "incrAt (idx v) h = h[k := h ! k + 1]"
    using incrAt_nat by simp
  then have l: "length (incrAt (idx v) h) = n" using Cons.prems(2) by simp
  have s: "sum_list (incrAt (idx v) h) = sum_list h + 1"
    unfolding step using k Cons.prems(2) by (simp only: sum_list_incr)
  from Cons.prems(1) have "\<forall>v\<in>set vals. \<exists>k. idx v = Fin (real k) \<and> k < n" by simp
  from Cons.IH[OF this l] s show ?case by simp
qed

lemma fillBins_sum:
  assumes "\<forall>v\<in>set vals. \<exists>x. v = Fin x \<and> m \<le> x" "0 < w" "1 \<le> n"
  shows "length (fillBins n (Fin m) (Fin w) vals) = n
         \<and> sum_list (fillBins n (Fin m) (Fin w) vals) = length vals"
proof -
  have "\<forall>v\<in>set vals. \<exists>k. Math_min (Fin (real (n - 1)))
                              (Math_floor (jdiv (jsub v (Fin m)) (Fin w)))
              = Fin (real k) \<and> k < n"
  proof
    fix v assume "v \<in> set vals"
    with assms(1) obtain x where "v = Fin x" "m \<le> x" by auto
    then show "\<exists>k. Math_min (Fin (real (n - 1))) (Math_floor (jdiv (jsub v (Fin m)) (Fin w)))
              = Fin (real k) \<and> k < n"
      using bin_index[OF _ assms(2,3)] by simp
  qed
  from fold_incr[OF this, of "replicate n 0"] show ?thesis
    by (simp add: fillBins_def)
qed

lemma parseFloat_nullish: "parseFloat pf (nullish v (JStr '''')) = parseFloat pf v"
  by (cases v) simp_all

lemma jlt_pos_cases: "jlt (Fin 0) v \<Longrightarrow> v = PosInf \<or> (\<exists>x. v = Fin x \<and> 0 < x)"
  by (cases v) auto

lemma periods_eq:
  "periods pf rows
   = sortAsc (filter (\<lambda>v. jlt (Fin 0) v) (map (\<lambda>r. parseFloat pf (r ''period'')) rows))"
proof -
  have "(\<lambda>v. \<not> isNaN v \<and> jlt (Fin 0) v) = (\<lambda>v. jlt (Fin 0) v)"
    using jlt_notNaN by blast
  then show ?thesis by (simp add: periods_def parseFloat_nullish)
qed

lemma length_periods:
  "length (periods pf rows)
   = length (filter (\<lambda>r. jlt (Fin 0) (parseFloat pf (r ''period''))) rows)"
  by (simp add: periods_eq length_sortAsc filter_map comp_def)

lemma HistogramChart_sum:
  assumes fin: "\<forall>r\<in>set rows. parseFloat pf (r ''period'') \<noteq> PosInf"
    and ne: "periods pf rows \<noteq> []"
  shows "\<exists>c. HistogramChart pf rows = Some c \<and> length (histogram c) = bins c
            \<and> sum_list (histogram c) = length (periods pf rows)"
proof -
  let ?ps = "periods pf rows"
  have st: "set ?ps = {v \<in> (\<lambda>r. parseFloat pf (r ''period'')) ` set rows. jlt (Fin 0) v}"
    by (auto simp add: periods_eq set_sortAsc)
  have pos: "\<forall>v\<in>set ?ps. \<exists>x. v = Fin x \<and> 0 < x"
  proof
    fix v assume v: "v \<in> set ?ps"
    then have "jlt (Fin 0) v" "v \<noteq> PosInf" using st fin by auto
    then show "\<exists>x. v = Fin x \<and> 0 < x" using jlt_pos_cases by blast
  qed
  then have nn: "\<forall>v\<in>set ?ps. \<not> isNaN v" by auto
  have srt: "sorted_wrt jle ?ps"
    unfolding periods_eq by (rule sorted_sortAsc) (auto dest: jlt_notNaN)
  from ne have len: "0 < length ?ps" by simp
  then have "?ps ! 0 \<in> set ?ps" "?ps ! (length ?ps - 1) \<in> set ?ps" by simp_all
  with pos obtain m M where m: "?ps ! 0 = Fin m" and M: "?ps ! (length ?ps - 1) = Fin M"
    by blast
  have least: "\<forall>v\<in>set ?ps. \<exists>x. v = Fin x \<and> m \<le> x"
  proof
    fix v assume v: "v \<in> set ?ps"
    with pos obtain x where x: "v = Fin x" by blast
    from sorted_first_least[OF srt nn v] have "m \<le> x" using m x by simp
    with x show "\<exists>x. v = Fin x \<and> m \<le> x" by blast
  qed
  have mM: "m \<le> M" using least M \<open>?ps ! (length ?ps - 1) \<in> set ?ps\<close> by auto
  define n where "n = binCount (length ?ps)"
  have n5: "5 \<le> n" unfolding n_def by (rule binCount_ge)
  define w where "w = (if (M - m) / real n = 0 then 1 else (M - m) / real n)"
  have wpos: "0 < w" using mM n5 by (auto simp add: w_def less_le)
  have wd: "(let q = jdiv (jsub (Fin M) (Fin m)) (Fin (real n))
             in if truthyNum q then q else Fin 1) = Fin w"
    using n5 by (simp add: jsub_def truthyNum_def w_def Let_def)
  have M': "?ps ! (length ?ps - Suc 0) = Fin M" using M by simp
  have hc: "HistogramChart pf rows
      = Some \<lparr> bins = n, width = Fin w, histogram = fillBins n (Fin m) (Fin w) ?ps \<rparr>"
    using ne wd by (simp add: HistogramChart_def Let_def m M' n_def [symmetric])
  have "1 \<le> n" using n5 by simp
  from fillBins_sum[OF least wpos this] hc show ?thesis by simp
qed

lemma HistogramChart_none: "periods pf rows = [] \<Longrightarrow> HistogramChart pf rows = None"
  by (simp add: HistogramChart_def)

lemma columns_count:
  "(case map_of (columns pf rows) col of None \<Rightarrow> 0 | Some s \<Rightarrow> stat_count s)
   = (if col \<in> set numericCols
      then length (filter (\<lambda>r. \<not> isNaN (parseFloat pf (r col))) rows) else 0)"
  by (simp add: columns_lookup summary_count)

lemma columns_period: "map_of (columns pf rows) ''period'' = None"
  by (simp add: columns_lookup numericCols_def)

text \<open>
  C5, as the code has it.  The one histogram is drawn for the column \<open>period\<close> and
  keeps its values that are numbers and greater than 0: on a table whose periods are
  not \<open>Infinity\<close>, the bin counts sum to the number of rows with a positive period
  (0 stands for no chart).  The summaries are computed for the eight columns of
  \<open>numericCols\<close>, which do not include \<open>period\<close>, and keep every value that is a
  number: the count of the summary of such a column is the number of its rows with a
  numeric cell (0 stands for no summary), and there is never a summary of \<open>period\<close>.
  The sum of the bins and the count of the summary of a summarised column are equal
  when every row has the same number in that column as in \<open>period\<close> and every
  numeric period is positive.
\<close>

theorem histogram_sum:
  assumes "\<forall>r\<in>set rows. parseFloat pf (r ''period'') \<noteq> PosInf"
  shows "(case HistogramChart pf rows of None \<Rightarrow> 0 | Some c \<Rightarrow> sum_list (histogram c))
           = length (filter (\<lambda>r. jlt (Fin 0) (parseFloat pf (r ''period''))) rows)
         \<and> (case map_of (columns pf rows) col of None \<Rightarrow> 0 | Some s \<Rightarrow> stat_count s)
           = (if col \<in> set numericCols
              then length (filter (\<lambda>r. \<not> isNaN (parseFloat pf (r col))) rows) else 0)
         \<and> map_of (columns pf rows) ''period'' = None
         \<and> (col \<in> set numericCols
             \<and> (\<forall>r\<in>set rows. parseFloat pf (r col) = parseFloat pf (r ''period''))
             \<and> (\<forall>r\<in>set rows. \<not> isNaN (parseFloat pf (r ''period''))
                                \<longrightarrow> jlt (Fin 0) (parseFloat pf (r ''period'')))
             \<longrightarrow> (case HistogramChart pf rows of None \<Rightarrow> 0 | Some c \<Rightarrow> sum_list (histogram c))
                 = (case map_of (columns pf rows) col of None \<Rightarrow> 0
                    | Some s \<Rightarrow> stat_count s))"
proof -
  have h: "(case HistogramChart pf rows of None \<Rightarrow> 0 | Some c \<Rightarrow> sum_list (histogram c))
           = length (filter (\<lambda>r. jlt (Fin 0) (parseFloat pf (r ''period''))) rows)"
  proof (cases "periods pf rows = []")
    case True
    then show ?thesis using HistogramChart_none[OF True] length_periods[of pf rows] by simp
  next
    case False
    from HistogramChart_sum[OF assms False] show ?thesis
      using length_periods[of pf rows] by auto
  qed
  have eq: "length (filter (\<lambda>r. jlt (Fin 0) (parseFloat pf (r ''period''))) rows)
          = length (filter (\<lambda>r. \<not> isNaN (parseFloat pf (r col))) rows)"
    if same: "\<forall>r\<in>set rows. parseFloat pf (r col) = parseFloat pf (r ''period'')"
      and pos: "\<forall>r\<in>set rows. \<not> isNaN (parseFloat pf (r ''period''))
                        \<longrightarrow> jlt (Fin 0) (parseFloat pf (r ''period''))"
  proof -
    have "filter (\<lambda>r. jlt (Fin 0) (parseFloat pf (r ''period''))) rows
          = filter (\<lambda>r. \<not> isNaN (parseFloat pf (r col))) rows"
      using same pos by (intro filter_cong) (auto dest: jlt_notNaN)
    then show ?thesis by simp
  qed
  show ?thesis
    unfolding h columns_count using eq columns_period by simp
qed

theorem histogram_sum_witness:
  "(case HistogramChart constParse tableBoth of None \<Rightarrow> 0
    | Some c \<Rightarrow> sum_list (histogram c)) = 3
   \<and> (case map_of (columns constParse tableBoth) ''koi_period'' of None \<Rightarrow> 0
      | Some s \<Rightarrow> stat_count s) = 3"
proof -
  have fin: "\<forall>r\<in>set tableBoth. parseFloat constParse (r ''period'') \<noteq> PosInf"
    by (simp add: tableBoth_def bothPeriods_def row_simps)
  have col: "''koi_period'' \<in> set numericCols" by (simp add: numericCols_def)
  have same: "\<forall>r\<in>set tableBoth.
      parseFloat constParse (r ''koi_period'') = parseFloat constParse (r ''period'')"
    by (simp add: tableBoth_def bothPeriods_def row_simps)
  have pos: "\<forall>r\<in>set tableBoth. \<not> isNaN (parseFloat constParse (r ''period''))
                        \<longrightarrow> jlt (Fin 0) (parseFloat constParse (r ''period''))"
    by (simp add: tableBoth_def bothPeriods_def row_simps)
  note T = histogram_sum [OF fin, of "''koi_period''"]
  from T have sum: "(case HistogramChart constParse tableBoth of None \<Rightarrow> 0
      | Some c \<Rightarrow> sum_list (histogram c))
      = length (filter (\<lambda>r. jlt (Fin 0) (parseFloat constParse (r ''period''))) tableBoth)"
    by blast
  from T col same pos have eq: "(case HistogramChart constParse tableBoth of None \<Rightarrow> 0
      | Some c \<Rightarrow> sum_list (histogram c))
      = (case map_of (columns constParse tableBoth) ''koi_period'' of None \<Rightarrow> 0
         | Some s \<Rightarrow> stat_count s)"
    by blast
  have three: "length (filter (\<lambda>r. jlt (Fin 0) (parseFloat constParse (r ''period''))) tableBoth)
      = 3"
    by (simp add: tableBoth_def bothPeriods_def row_simps)
  show ?thesis using sum eq three by simp
qed

text \<open>
  C5 as stated fails.  On the table with the periods 5 and 7 in the column
  \<open>koi_period\<close>, the summary of \<open>koi_period\<close> has the count 2 and no histogram is
  drawn, since the table has no column \<open>period\<close>.  On the table with the periods 0
  and 5 in both columns, the summary of \<open>koi_period\<close> has the count 2 and the
  histogram holds the one positive value.
\<close>

theorem histogram_sum_counterexample:
  "HistogramChart constParse tableKoi = None
   \<and> map_option stat_count (map_of (columns constParse tableKoi) ''koi_period'') = Some 2
   \<and> HistogramChart constParse tableZeroBoth
     = Some \<lparr> bins = 5, width = Fin 1, histogram = [1, 0, 0, 0, 0] \<rparr>
   \<and> map_option stat_count (map_of (columns constParse tableZeroBoth) ''koi_period'') = Some 2"
proof -
  have a: "HistogramChart constParse tableKoi = None"
    by (simp add: tableKoi_def HistogramChart_def periods_def row_simps sortAsc_def)
  have b: "map_option stat_count (map_of (columns constParse tableKoi) ''koi_period'') = Some 2"
    by (simp add: tableKoi_def columns_lookup numericCols_def columnSummary_def columnVals_def
        numericVals_def row_simps sortAsc_def Let_def)
  have c: "HistogramChart constParse tableZeroBoth
     = Some \<lparr> bins = 5, width = Fin 1, histogram = [1, 0, 0, 0, 0] \<rparr>"
    by (simp add: tableZeroBoth_def bothPeriods_def HistogramChart_def periods_def row_simps
        sortAsc_def binCount_small Let_def jsub_def truthyNum_def fillBins_def Math_min_def
        eval_nat_numeral)
  have d: "map_option stat_count (map_of (columns constParse tableZeroBoth) ''koi_period'')
      = Some 2"
    by (simp add: tableZeroBoth_def bothPeriods_def columns_lookup numericCols_def
        columnSummary_def columnVals_def numericVals_def row_simps sortAsc_def Let_def)
  show ?thesis using a b c d by simp
qed

text \<open>
  C6 at three rows with the period 10.  The chart with the square-root rule takes the
  width 1 and counts the three values in bin 0.  The second histogram, with 20 bins,
  divides by the width 0: the index of every value is \<open>NaN\<close>, and each of its 20 bins,
  from 10 to 10, has the count 0.
\<close>

theorem degenerate_histograms:
  "HistogramChart constParse tableTens
     = Some \<lparr> bins = 5, width = Fin 1, histogram = [3, 0, 0, 0, 0] \<rparr>
   \<and> histogramData constParse tableTens
     = replicate 20 \<lparr> binStart = Fin 10, binEnd = Fin 10, binTally = 0 \<rparr>"
proof -
  have a: "HistogramChart constParse tableTens
     = Some \<lparr> bins = 5, width = Fin 1, histogram = [3, 0, 0, 0, 0] \<rparr>"
    by (simp add: tableTens_def rowTen_def HistogramChart_def periods_def row_simps sortAsc_def
        binCount_small Let_def jsub_def truthyNum_def fillBins_def Math_min_def eval_nat_numeral)
  have vs: "validPeriods constParse tableTens = [Fin 10, Fin 10, Fin 10]"
    by (simp add: tableTens_def rowTen_def validPeriods_def row_simps sortAsc_def)
  have fb: "fillBins 20 (Fin 10) (Fin 0) [Fin 10, Fin 10, Fin 10] = replicate 20 0"
    by (simp add: fillBins_def jsub_def Math_min_def)
  have b: "histogramData constParse tableTens
     = replicate 20 \<lparr> binStart = Fin 10, binEnd = Fin 10, binTally = 0 \<rparr>"
    by (rule nth_equalityI) (simp_all add: histogramData_def Let_def vs jsub_def fb)
  show ?thesis using a b by simp
qed

section \<open>Scatter plots\<close>

text \<open>
  C7 at one row with the period 0 and the radius 2.  The scatter plot of the data
  exploration divides by \<open>Math.max(0, 1) = 1\<close> and puts the dot at the left edge of
  the plot, \<open>x = 40\<close>.  The second scatter plot divides by \<open>Math.max(0) = 0\<close>:
  the \<open>x\<close> coordinate of the dot is \<open>0 / 0\<close>, \<open>NaN\<close>.
\<close>

theorem zero_column_scatter:
  "ScatterPlot constParse constShow tableZeroX = [(Fin 40, Fin 30)]
   \<and> scatterDataPlot constParse tableZeroX = [(NaN, Fin 30)]"
proof -
  have a: "ScatterPlot constParse constShow tableZeroX = [(Fin 40, Fin 30)]"
    by (simp add: tableZeroX_def ScatterPlot_def scatter_def maxX_def maxY_def row_simps
        Math_max_of_def Math_max_def jsub_def)
  have b: "scatterDataPlot constParse tableZeroX = [(NaN, Fin 30)]"
    by (simp add: tableZeroX_def scatterDataPlot_def scatterData_def dataMaxX_def dataMaxY_def
        row_simps jor_def truthyNum_def Math_max_of_def Math_max_def jsub_def RadiusKey_def)
  show ?thesis using a b by simp
qed

section \<open>The planet system\<close>

lemma planets_length:
  "length (planets (systemConfigOf numOf showNum rnd rows dispo))
   = length (take 8 (filtered showNum rows dispo))"
  by (simp add: systemConfigOf_def)

lemma planets_nth:
  "i < length (take 8 (filtered showNum rows dispo)) \<Longrightarrow>
   planets (systemConfigOf numOf showNum rnd rows dispo) ! i
   = planetOf numOf dispo (rnd i) i (take 8 (filtered showNum rows dispo) ! i)"
  by (simp add: systemConfigOf_def nth_enumerate_eq)

lemma filtered_examples:
  "filtered constShow tableOrbits ''CONFIRMED'' = tableOrbits"
  "filtered constShow tableZeroOrbit ''CONFIRMED'' = tableZeroOrbit"
  "filtered constShow tableNegativeOrbit ''CONFIRMED'' = tableNegativeOrbit"
  "filtered constShow tableZeros ''CONFIRMED'' = tableZeros"
  by (simp_all add: filtered_def tableOrbits_def tableZeroOrbit_def tableNegativeOrbit_def
      tableZeros_def row_simps disposition_simps)

lemma planets_examples:
  "planets (systemConfigOf numOf constShow rnd tableOrbits ''CONFIRMED'')
   = [planetOf numOf ''CONFIRMED'' (rnd 0) 0 (confirmedWith 1),
      planetOf numOf ''CONFIRMED'' (rnd 1) 1 (confirmedWith 32)]"
  "planets (systemConfigOf numOf constShow rnd tableZeroOrbit ''CONFIRMED'')
   = [planetOf numOf ''CONFIRMED'' (rnd 0) 0 (confirmedWith 0),
      planetOf numOf ''CONFIRMED'' (rnd 1) 1 (confirmedWith 1)]"
  "planets (systemConfigOf numOf constShow rnd tableNegativeOrbit ''CONFIRMED'')
   = [planetOf numOf ''CONFIRMED'' (rnd 0) 0 (confirmedWith (- 4)),
      planetOf numOf ''CONFIRMED'' (rnd 1) 1 (confirmedWith 1)]"
  by (simp_all add: systemConfigOf_def filtered_examples)
    (simp_all add: tableOrbits_def tableZeroOrbit_def tableNegativeOrbit_def)

lemma periodField_confirmedWith: "periodField (confirmedWith p) = JNum (Fin p)"
  by (simp add: periodField_def row_simps)

subsection \<open>The speed\<close>

text \<open>
  C2, as the code has it.  The speed of the planet at index \<open>i\<close> is
  \<open>0.25 + u * 0.7\<close> for the value \<open>u\<close> that \<open>Math.random()\<close> returns in the
  callback of that planet; no key of the row and no seed enters it.  Two invocations on
  the same rows and the same disposition yield as many planets, with the same orbital
  radius, radius, colour and name; their speeds are the same exactly when the source of
  randomness returns the same values in both.
\<close>

theorem speed_random:
  "length (planets (systemConfigOf numOf showNum rnd rows dispo))
     = min 8 (length (filtered showNum rows dispo))
   \<and> (\<forall>i < length (planets (systemConfigOf numOf showNum rnd rows dispo)).
         speed (planets (systemConfigOf numOf showNum rnd rows dispo) ! i)
           = Fin (0.25 + rnd i * 0.7))
   \<and> map orbitalRadius (planets (systemConfigOf numOf showNum rnd rows dispo))
       = map orbitalRadius (planets (systemConfigOf numOf showNum rnd' rows dispo))
   \<and> map planetRadius (planets (systemConfigOf numOf showNum rnd rows dispo))
       = map planetRadius (planets (systemConfigOf numOf showNum rnd' rows dispo))
   \<and> map planetColor (planets (systemConfigOf numOf showNum rnd rows dispo))
       = map planetColor (planets (systemConfigOf numOf showNum rnd' rows dispo))
   \<and> map name (planets (systemConfigOf numOf showNum rnd rows dispo))
       = map name (planets (systemConfigOf numOf showNum rnd' rows dispo))
   \<and> (map speed (planets (systemConfigOf numOf showNum rnd rows dispo))
       = map speed (planets (systemConfigOf numOf showNum rnd' rows dispo))
      \<longleftrightarrow> (\<forall>i < min 8 (length (filtered showNum rows dispo)). rnd i = rnd' i))"
proof -
  let ?fs = "take 8 (filtered showNum rows dispo)"
  let ?P = "\<lambda>rnd. planets (systemConfigOf numOf showNum rnd rows dispo)"
  have len: "\<And>rnd. length (?P rnd) = min 8 (length (filtered showNum rows dispo))"
    by (simp add: planets_length)
  have nth: "\<And>rnd i. i < min 8 (length (filtered showNum rows dispo)) \<Longrightarrow>
      ?P rnd ! i = planetOf numOf dispo (rnd i) i (?fs ! i)"
    using planets_nth by simp
  have sp: "\<And>rnd i. i < min 8 (length (filtered showNum rows dispo)) \<Longrightarrow>
      speed (?P rnd ! i) = Fin (0.25 + rnd i * 0.7)"
    by (simp add: nth planetOf_def)
  have same: "\<And>f. (\<And>u u' i r. f (planetOf numOf dispo u i r) = f (planetOf numOf dispo u' i r))
      \<Longrightarrow> map f (?P rnd) = map f (?P rnd')"
    by (rule nth_equalityI) (simp_all add: len nth)
  have speeds: "map speed (?P rnd) = map speed (?P rnd')
      \<longleftrightarrow> (\<forall>i < min 8 (length (filtered showNum rows dispo)). rnd i = rnd' i)"
  proof
    assume eq: "map speed (?P rnd) = map speed (?P rnd')"
    show "\<forall>i < min 8 (length (filtered showNum rows dispo)). rnd i = rnd' i"
    proof (intro allI impI)
      fix i assume i: "i < min 8 (length (filtered showNum rows dispo))"
      then have "map speed (?P rnd) ! i = speed (?P rnd ! i)"
        "map speed (?P rnd') ! i = speed (?P rnd' ! i)" by (simp_all add: len)
      with eq have "speed (?P rnd ! i) = speed (?P rnd' ! i)" by simp
      then show "rnd i = rnd' i" using sp[OF i] by simp
    qed
  next
    assume "\<forall>i < min 8 (length (filtered showNum rows dispo)). rnd i = rnd' i"
    then show "map speed (?P rnd) = map speed (?P rnd')"
      by (intro nth_equalityI) (simp_all add: len sp)
  qed
  show ?thesis
    using len sp speeds
      same[of orbitalRadius] same[of planetRadius] same[of planetColor] same[of name]
    by (simp add: planetOf_def)
qed

theorem speed_random_witness:
  "length (planets (systemConfigOf constParse constShow rndHalf tableOrbits ''CONFIRMED'')) = 2
   \<and> speed (planets (systemConfigOf constParse constShow rndHalf tableOrbits ''CONFIRMED'') ! 1)
       = Fin (3 / 5)
   \<and> map orbitalRadius (planets (systemConfigOf constParse constShow rndHalf tableOrbits ''CONFIRMED''))
       = map orbitalRadius (planets (systemConfigOf constParse constShow rndZero tableOrbits ''CONFIRMED''))"
proof -
  note T = speed_random [of constParse constShow rndHalf tableOrbits "''CONFIRMED''" rndZero]
  have two: "min 8 (length (filtered constShow tableOrbits ''CONFIRMED'')) = 2"
    by (simp add: filtered_examples) (simp add: tableOrbits_def)
  from T two have len:
    "length (planets (systemConfigOf constParse constShow rndHalf tableOrbits ''CONFIRMED'')) = 2"
    by simp
  from T have "\<forall>i < length (planets (systemConfigOf constParse constShow rndHalf tableOrbits ''CONFIRMED'')).
         speed (planets (systemConfigOf constParse constShow rndHalf tableOrbits ''CONFIRMED'') ! i)
           = Fin (0.25 + rndHalf i * 0.7)"
    by blast
  with len have sp:
    "speed (planets (systemConfigOf constParse constShow rndHalf tableOrbits ''CONFIRMED'') ! 1)
       = Fin (0.25 + rndHalf 1 * 0.7)"
    by simp
  from T have same:
    "map orbitalRadius (planets (systemConfigOf constParse constShow rndHalf tableOrbits ''CONFIRMED''))
       = map orbitalRadius (planets (systemConfigOf constParse constShow rndZero tableOrbits ''CONFIRMED''))"
    by blast
  show ?thesis using len sp same by (simp add: rndHalf_def)
qed

text \<open>
  C2 as stated fails: on the same two confirmed rows, an invocation in which every
  draw is 0 and one in which every draw is one half yield different speeds.
\<close>

theorem speed_random_counterexample:
  "map speed (planets (systemConfigOf constParse constShow rndZero tableOrbits ''CONFIRMED''))
     = [Fin (1 / 4), Fin (1 / 4)]
   \<and> map speed (planets (systemConfigOf constParse constShow rndHalf tableOrbits ''CONFIRMED''))
     = [Fin (3 / 5), Fin (3 / 5)]
   \<and> map speed (planets (systemConfigOf constParse constShow rndZero tableOrbits ''CONFIRMED''))
     \<noteq> map speed (planets (systemConfigOf constParse constShow rndHalf tableOrbits ''CONFIRMED''))"
  by (simp add: planets_examples planetOf_def rndZero_def rndHalf_def)

subsection \<open>The orbital radius\<close>

lemma jlt_left: "jlt a b \<Longrightarrow> a \<noteq> PosInf \<and> a \<noteq> NaN"
  by (cases a; cases b) auto

lemma jlt_pos_trans: "jlt (Fin 0) a \<Longrightarrow> jlt a b \<Longrightarrow> jlt (Fin 0) b"
  by (cases a; cases b) auto

lemma truthy_positive: "jlt (Fin 0) (Number numOf v) \<Longrightarrow> truthy v"
proof (cases v)
  case (JNum n)
  assume "jlt (Fin 0) (Number numOf v)"
  with JNum show ?thesis by (cases n) (auto simp: truthyNum_def)
qed (auto split: if_splits)

lemma orbital_mono:
  assumes "jlt (Fin 0) (Number numOf (periodField ra))"
    and "jlt (Number numOf (periodField ra)) (Number numOf (periodField rb))"
  shows "jle (orbitalRadiusOf numOf i ra) (orbitalRadiusOf numOf j rb)"
proof -
  let ?a = "Number numOf (periodField ra)" and ?b = "Number numOf (periodField rb)"
  from jlt_left[OF assms(2)] assms(1) obtain a where a: "?a = Fin a" "0 < a"
    by (cases ?a) auto
  have "jlt (Fin 0) ?b" using assms by (rule jlt_pos_trans)
  then have tb: "truthy (periodField rb)" by (rule truthy_positive)
  have ta: "truthy (periodField ra)" using assms(1) by (rule truthy_positive)
  have "jle (jadd (Fin 1.8) (Math_pow ?a 0.3)) (jadd (Fin 1.8) (Math_pow ?b 0.3))"
  proof (cases ?b)
    case (Fin b)
    with assms(2) a have "a < b" by simp
    then have "a powr 0.3 \<le> b powr 0.3" using a(2) by (intro powr_mono2) simp_all
    with a Fin \<open>a < b\<close> show ?thesis by simp
  qed (use assms(2) a in simp_all)
  then show ?thesis using ta tb by (simp add: orbitalRadiusOf_def)
qed

text \<open>
  C9, as the code has it.  The period of a row is \<open>koi_period ?? pl_orbper\<close>, read
  as a number.  For two of the planets shown whose rows have periods greater than 0,
  the one with the smaller period has an orbital radius less than or equal to that of
  the other.
\<close>

theorem orbitalRadius_monotone:
  assumes "i < length (take 8 (filtered showNum rows dispo))"
    and "j < length (take 8 (filtered showNum rows dispo))"
    and "jlt (Fin 0) (Number numOf (periodField (take 8 (filtered showNum rows dispo) ! i)))"
    and "jlt (Number numOf (periodField (take 8 (filtered showNum rows dispo) ! i)))
             (Number numOf (periodField (take 8 (filtered showNum rows dispo) ! j)))"
  shows "jle (orbitalRadius (planets (systemConfigOf numOf showNum rnd rows dispo) ! i))
             (orbitalRadius (planets (systemConfigOf numOf showNum rnd rows dispo) ! j))"
  using orbital_mono[OF assms(3,4)] planets_nth[OF assms(1)] planets_nth[OF assms(2)]
  by (simp add: planetOf_def)

theorem orbitalRadius_monotone_witness:
  "jle (orbitalRadius (planets (systemConfigOf constParse constShow rndZero tableOrbits ''CONFIRMED'') ! 0))
       (orbitalRadius (planets (systemConfigOf constParse constShow rndZero tableOrbits ''CONFIRMED'') ! 1))"
proof -
  have rows: "take 8 (filtered constShow tableOrbits ''CONFIRMED'')
      = [confirmedWith 1, confirmedWith 32]"
    by (simp add: filtered_examples) (simp add: tableOrbits_def)
  have i: "0 < length (take 8 (filtered constShow tableOrbits ''CONFIRMED''))"
    unfolding rows by simp
  have j: "1 < length (take 8 (filtered constShow tableOrbits ''CONFIRMED''))"
    unfolding rows by simp
  have pos: "jlt (Fin 0)
      (Number constParse (periodField (take 8 (filtered constShow tableOrbits ''CONFIRMED'') ! 0)))"
    unfolding rows by (simp add: periodField_confirmedWith)
  have less: "jlt
      (Number constParse (periodField (take 8 (filtered constShow tableOrbits ''CONFIRMED'') ! 0)))
      (Number constParse (periodField (take 8 (filtered constShow tableOrbits ''CONFIRMED'') ! 1)))"
    unfolding rows by (simp add: periodField_confirmedWith)
  show ?thesis by (rule orbitalRadius_monotone [OF i j pos less])
qed

text \<open>
  C9 as stated fails.  Of two confirmed rows with the periods 0 and 1, the first gets
  the radius 3 of its index and the second the radius 2.8 of its period.  Of two with
  the periods -4 and 1, the first gets the radius \<open>NaN\<close>, which is not less than or
  equal to any number.
\<close>

theorem orbitalRadius_counterexample:
  "map orbitalRadius (planets (systemConfigOf constParse constShow rndZero tableZeroOrbit ''CONFIRMED''))
     = [Fin 3, Fin (14 / 5)]
   \<and> \<not> jle (Fin 3) (Fin (14 / 5))
   \<and> map orbitalRadius
       (planets (systemConfigOf constParse constShow rndZero tableNegativeOrbit ''CONFIRMED''))
     = [NaN, Fin (14 / 5)]
   \<and> \<not> jle NaN (Fin (14 / 5))"
  by (simp add: planets_examples planetOf_def orbitalRadiusOf_def periodField_confirmedWith
      truthyNum_def)

subsection \<open>Zero as a missing value\<close>

lemma radiusField_missing:
  "r ''koi_prad'' \<in> {JNull, JUndefined} \<Longrightarrow> r ''pl_rade'' \<in> {JNull, JUndefined} \<Longrightarrow>
   radiusField r = JNull"
  by (auto simp: radiusField_def)

text \<open>
  C10.  The radius of a row is \<open>koi_prad ?? pl_rade ?? null\<close>, its period
  \<open>koi_period ?? pl_orbper ?? null\<close>.  For the planet at index \<open>i\<close> and its row:
  when the radius is the number 0 or \<open>null\<close> (as it is when both cells are \<open>null\<close> or
  absent), the radius of the planet is the default 0.12, which is not the value
  \<open>Math.max(0.08, 0 * 0.05)\<close> of the floor formula at 0; when the period is the number
  0 or \<open>null\<close>, the orbital radius is \<open>3 + i * 1.8\<close>, which is not the value
  \<open>1.8 + 0^0.3\<close> of the power law at 0.
\<close>

theorem zero_is_missing:
  assumes "i < length (take 8 (filtered showNum rows dispo))"
    and "r = take 8 (filtered showNum rows dispo) ! i"
    and "p = planets (systemConfigOf numOf showNum rnd rows dispo) ! i"
  shows "(radiusField r = JNum (Fin 0) \<or> radiusField r = JNull \<longrightarrow>
            planetRadius p = Fin 0.12
            \<and> planetRadius p \<noteq> Math_max (Fin 0.08) (jmul (Fin 0) (Fin 0.05)))
       \<and> (r ''koi_prad'' \<in> {JNull, JUndefined} \<and> r ''pl_rade'' \<in> {JNull, JUndefined} \<longrightarrow>
            radiusField r = JNull)
       \<and> (periodField r = JNum (Fin 0) \<or> periodField r = JNull \<longrightarrow>
            orbitalRadius p = Fin (3 + real i * 1.8)
            \<and> orbitalRadius p \<noteq> jadd (Fin 1.8) (Math_pow (Fin 0) 0.3))"
proof -
  have p: "p = planetOf numOf dispo (rnd i) i r"
    using planets_nth[OF assms(1)] assms(2,3) by simp
  have a: "radiusField r = JNum (Fin 0) \<or> radiusField r = JNull \<longrightarrow>
            planetRadius p = Fin 0.12
            \<and> planetRadius p \<noteq> Math_max (Fin 0.08) (jmul (Fin 0) (Fin 0.05))"
    by (auto simp add: p planetOf_def planetRadiusOf_def truthyNum_def Math_max_def)
  have b: "periodField r = JNum (Fin 0) \<or> periodField r = JNull \<longrightarrow>
            orbitalRadius p = Fin (3 + real i * 1.8)
            \<and> orbitalRadius p \<noteq> jadd (Fin 1.8) (Math_pow (Fin 0) 0.3)"
    by (auto simp add: p planetOf_def orbitalRadiusOf_def truthyNum_def)
  show ?thesis using a b radiusField_missing by blast
qed

theorem zero_is_missing_witness:
  "planetRadius (planets (systemConfigOf constParse constShow rndZero tableZeros ''CONFIRMED'') ! 0)
     = Fin (3 / 25)
   \<and> orbitalRadius (planets (systemConfigOf constParse constShow rndZero tableZeros ''CONFIRMED'') ! 0)
     = Fin 3
   \<and> planetRadius (planets (systemConfigOf constParse constShow rndZero tableZeros ''CONFIRMED'') ! 1)
     = Fin (3 / 25)
   \<and> orbitalRadius (planets (systemConfigOf constParse constShow rndZero tableZeros ''CONFIRMED'') ! 1)
     = Fin (24 / 5)"
proof -
  have rows: "take 8 (filtered constShow tableZeros ''CONFIRMED'') = tableZeros"
    by (simp add: filtered_examples) (simp add: tableZeros_def)
  have i0: "0 < length (take 8 (filtered constShow tableZeros ''CONFIRMED''))"
    unfolding rows by (simp add: tableZeros_def)
  have i1: "1 < length (take 8 (filtered constShow tableZeros ''CONFIRMED''))"
    unfolding rows by (simp add: tableZeros_def)
  have r0: "radiusField (tableZeros ! 0) = JNum (Fin 0)" "periodField (tableZeros ! 0) = JNum (Fin 0)"
    by (simp_all add: tableZeros_def radiusField_def periodField_def row_simps)
  have r1: "radiusField (tableZeros ! 1) = JNull" "periodField (tableZeros ! 1) = JNum (Fin 0)"
    by (simp_all add: tableZeros_def radiusField_def periodField_def row_simps)
  from zero_is_missing [OF i0 refl refl, of constParse rndZero] r0
  have p0: "planetRadius (planets (systemConfigOf constParse constShow rndZero tableZeros ''CONFIRMED'') ! 0)
     = Fin 0.12"
    "orbitalRadius (planets (systemConfigOf constParse constShow rndZero tableZeros ''CONFIRMED'') ! 0)
     = Fin (3 + real 0 * 1.8)"
    unfolding rows by blast+
  from zero_is_missing [OF i1 refl refl, of constParse rndZero] r1
  have p1: "planetRadius (planets (systemConfigOf constParse constShow rndZero tableZeros ''CONFIRMED'') ! 1)
     = Fin 0.12"
    "orbitalRadius (planets (systemConfigOf constParse constShow rndZero tableZeros ''CONFIRMED'') ! 1)
     = Fin (3 + real 1 * 1.8)"
    unfolding rows by blast+
  show ?thesis using p0 p1 by simp
qed

end
